theory Spec2Isabelle
  imports Complex_Main "HOL-Library.Log_Nat"
begin

section \<open>Numbers, arrays and points\<close>

text \<open>
  The indicator layer of the dashboard (\<^verbatim>\<open>useTechnicalAnalysis\<close> and
  \<^verbatim>\<open>useRiskReturnAnalysis\<close>) computes on JavaScript numbers. In the first embedding
  they are exact reals: rounding and overflow of IEEE doubles are left out. It serves
  the properties that do not depend on rounding (lengths, timestamps, minimum and
  maximum, the absence of exceptions) and the ones that are about exact arithmetic.
  The reals have no \<^verbatim>\<open>NaN\<close> and no \<^verbatim>\<open>Infinity\<close>, so every place where the
  JavaScript would produce one of them from finite operands (a division by zero,
  arithmetic on the \<^verbatim>\<open>undefined\<close> of an out-of-range array read, \<^verbatim>\<open>Math.min()\<close> of
  no arguments) is a branch of the model that stops with \<open>NotFinite\<close>: what the
  JavaScript goes on to compute from such a value is not followed. The one exception
  the JavaScript throws in this code, reading a component of \<^verbatim>\<open>undefined\<close>, is
  \<open>TypeError\<close>.

  The running sums of \<open>calculateRSI\<close> are where rounding changes the result. A second
  embedding of that function, on binary64 values, is further down.
\<close>

datatype error = TypeError | NotFinite

text \<open>An entry \<^verbatim>\<open>[timestamp, value]\<close> of \<^verbatim>\<open>prices\<close>.\<close>

type_synonym price = "real \<times> real"

text \<open>The chart point \<^verbatim>\<open>{ x, y }\<close>.\<close>

record point =
  point_x :: real
  point_y :: real

text \<open>\<^verbatim>\<open>xs[i]\<close>: \<^verbatim>\<open>undefined\<close> (here \<open>None\<close>) outside \<open>0 \<le> i < length\<close>.\<close>

definition at_index :: "'a list \<Rightarrow> int \<Rightarrow> 'a option" where
  "at_index xs i = (if 0 \<le> i \<and> i < int (length xs) then Some (xs ! nat i) else None)"

text \<open>
  \<^verbatim>\<open>xs.slice(start, end)\<close>: a negative bound counts from the end of the array, and both
  bounds are clamped to \<open>0 .. length\<close>.
\<close>

definition slice :: "'a list \<Rightarrow> int \<Rightarrow> int \<Rightarrow> 'a list" where
  "slice xs start fin =
     (let len = int (length xs);
          k = (if start < 0 then max (len + start) 0 else min start len);
          final = (if fin < 0 then max (len + fin) 0 else min fin len)
      in take (nat (final - k)) (drop (nat k) xs))"

text \<open>\<^verbatim>\<open>xs.slice(start)\<close>: the end defaults to the length.\<close>

definition slice_from :: "'a list \<Rightarrow> int \<Rightarrow> 'a list" where
  "slice_from xs start = slice xs start (int (length xs))"

text \<open>
  \<^verbatim>\<open>Math.min(...xs)\<close> and \<^verbatim>\<open>Math.max(...xs)\<close>. Of no arguments they are
  \<^verbatim>\<open>Infinity\<close> and \<^verbatim>\<open>-Infinity\<close>.
\<close>

definition Math_min :: "real list \<Rightarrow> error + real" where
  "Math_min xs = (case xs of [] \<Rightarrow> Inl NotFinite | v # vs \<Rightarrow> Inr (fold min vs v))"

definition Math_max :: "real list \<Rightarrow> error + real" where
  "Math_max xs = (case xs of [] \<Rightarrow> Inl NotFinite | v # vs \<Rightarrow> Inr (fold max vs v))"

section \<open>Simple moving average\<close>

text \<open>
  \<^verbatim>\<open>
  const calculateSMA = (data: number[], period: number) => {
    const sma = [];
    for (let i = period - 1; i < data.length; i++) {
      const sum = data.slice(i - period + 1, i + 1).reduce((acc, val) => acc + val, 0);
      sma.push({ x: prices[i][0], y: sum / period });
    }
    return sma;
  };
  \<close>
  The function is a closure over \<^verbatim>\<open>prices\<close>, which is the first argument here. The
  loop is \<open>sma_loop\<close>, with the index \<open>i\<close> and the array \<open>sma\<close> built so far.
\<close>

function sma_loop :: "price list \<Rightarrow> real list \<Rightarrow> int \<Rightarrow> int \<Rightarrow> point list \<Rightarrow> error + point list" where
  "sma_loop prices data period i sma =
     (if i < int (length data) then
        (let sum = foldl (\<lambda>acc val. acc + val) 0 (slice data (i - period + 1) (i + 1))
         in case at_index prices i of
              None \<Rightarrow> Inl TypeError
            | Some p \<Rightarrow>
                if period = 0 then Inl NotFinite
                else sma_loop prices data period (i + 1)
                       (sma @ [\<lparr>point_x = fst p, point_y = sum / real_of_int period\<rparr>]))
      else Inr sma)"
  by pat_completeness auto
termination
  by (relation "measure (\<lambda>(prices, data, period, i, sma). nat (int (length data) - i))") auto

definition calculateSMA :: "price list \<Rightarrow> real list \<Rightarrow> int \<Rightarrow> error + point list" where
  "calculateSMA prices data period = sma_loop prices data period (period - 1) []"

section \<open>Relative strength index\<close>

text \<open>
  \<^verbatim>\<open>
  const calculateRSI = (data: number[], period = 14) => {
    const rsi: {x: number, y: number}[] = [];
    let gains = 0;
    let losses = 0;
    for (let i = 1; i < data.length; i++) {
      const change = data[i] - data[i - 1];
      if (change > 0) { gains += change; } else { losses -= change; }
      if (i >= period) {
        const avgGain = gains / period;
        const avgLoss = losses / period;
        const rs = avgGain / (avgLoss || 1); // Avoid division by zero
        const rsiValue = 100 - (100 / (1 + rs));
        rsi.push({ x: prices[i][0], y: rsiValue });
        const prevChange = data[i - period + 1] - data[i - period];
        if (prevChange > 0) { gains -= prevChange; } else { losses += prevChange; }
      }
    }
    return rsi;
  };
  \<close>
  \<^verbatim>\<open>avgLoss || 1\<close> is 1 when \<^verbatim>\<open>avgLoss\<close> is zero and \<^verbatim>\<open>avgLoss\<close> otherwise.
\<close>

function rsi_loop :: "price list \<Rightarrow> real list \<Rightarrow> int \<Rightarrow> int \<Rightarrow> real \<Rightarrow> real \<Rightarrow> point list \<Rightarrow> error + point list" where
  "rsi_loop prices data period i gains losses rsi =
     (if i < int (length data) then
        (case (at_index data i, at_index data (i - 1)) of
           (Some cur, Some prev) \<Rightarrow>
             (let change = cur - prev;
                  gains1 = (if change > 0 then gains + change else gains);
                  losses1 = (if change > 0 then losses else losses - change)
              in if i \<ge> period then
                   (if period = 0 then Inl NotFinite
                    else
                      (let avgGain = gains1 / real_of_int period;
                           avgLoss = losses1 / real_of_int period;
                           rs = avgGain / (if avgLoss = 0 then 1 else avgLoss)
                       in if 1 + rs = 0 then Inl NotFinite
                          else
                            (let rsiValue = 100 - (100 / (1 + rs))
                             in case at_index prices i of
                                  None \<Rightarrow> Inl TypeError
                                | Some p \<Rightarrow>
                                    (case (at_index data (i - period + 1), at_index data (i - period)) of
                                       (Some a, Some b) \<Rightarrow>
                                         (let prevChange = a - b;
                                              gains2 = (if prevChange > 0 then gains1 - prevChange else gains1);
                                              losses2 = (if prevChange > 0 then losses1 else losses1 + prevChange)
                                          in rsi_loop prices data period (i + 1) gains2 losses2
                                               (rsi @ [\<lparr>point_x = fst p, point_y = rsiValue\<rparr>]))
                                     | _ \<Rightarrow> Inl NotFinite))))
                 else rsi_loop prices data period (i + 1) gains1 losses1 rsi)
         | _ \<Rightarrow> Inl NotFinite)
      else Inr rsi)"
  by pat_completeness auto
termination
  by (relation "measure (\<lambda>(prices, data, period, i, gains, losses, rsi). nat (int (length data) - i))") auto

definition calculateRSI :: "price list \<Rightarrow> real list \<Rightarrow> int \<Rightarrow> error + point list" where
  "calculateRSI prices data period = rsi_loop prices data period 1 0 0 []"

section \<open>The technical snapshot\<close>

record technical_analysis =
  sma20 :: "point list"
  sma50 :: "point list"
  rsi :: "point list"
  support :: "real option"
  resistance :: "real option"

text \<open>
  \<^verbatim>\<open>
  if (!prices || prices.length === 0) {
    return { sma20: [], sma50: [], rsi: [], support: null, resistance: null };
  }
  const closingPrices = prices.map(p => p[1]);
  const sma20 = calculateSMA(closingPrices, 20);
  const sma50 = calculateSMA(closingPrices, 50);
  const rsi = calculateRSI(closingPrices);
  const recentPrices = closingPrices.slice(-90); // Look at last 90 days
  const support = Math.min(...recentPrices);
  const resistance = Math.max(...recentPrices);
  return { sma20, sma50, rsi, support, resistance };
  \<close>
  \<^verbatim>\<open>null\<close> is \<open>None\<close>. The parameter has the type \<^verbatim>\<open>[number, number][]\<close>, and the one
  caller passes \<^verbatim>\<open>historicalData?.prices || []\<close>, so \<^verbatim>\<open>prices\<close> is an array.
\<close>

definition useTechnicalAnalysis :: "price list \<Rightarrow> error + technical_analysis" where
  "useTechnicalAnalysis prices =
     (if length prices = 0 then
        Inr \<lparr>sma20 = [], sma50 = [], rsi = [], support = None, resistance = None\<rparr>
      else
        (let closingPrices = map snd prices
         in case calculateSMA prices closingPrices 20 of
              Inl e \<Rightarrow> Inl e
            | Inr s20 \<Rightarrow>
           (case calculateSMA prices closingPrices 50 of
              Inl e \<Rightarrow> Inl e
            | Inr s50 \<Rightarrow>
           (case calculateRSI prices closingPrices 14 of
              Inl e \<Rightarrow> Inl e
            | Inr r \<Rightarrow>
           (let recentPrices = slice_from closingPrices (- 90)
            in case Math_min recentPrices of
                 Inl e \<Rightarrow> Inl e
               | Inr lo \<Rightarrow>
              (case Math_max recentPrices of
                 Inl e \<Rightarrow> Inl e
               | Inr hi \<Rightarrow>
                   Inr \<lparr>sma20 = s20, sma50 = s50, rsi = r,
                        support = Some lo, resistance = Some hi\<rparr>))))))"

section \<open>Risk and return\<close>

text \<open>
  \<^verbatim>\<open>CryptoStats\<close>, and the field \<^verbatim>\<open>price_change_percentage_24h_in_currency\<close> that
  \<^verbatim>\<open>useRiskReturnAnalysis\<close> reads through \<^verbatim>\<open>(coin as any)\<close>: the interface does not
  declare it, so an object may lack it (\<open>None\<close>).
\<close>

record CryptoStats =
  coin_id :: string
  coin_name :: string
  coin_symbol :: string
  coin_image :: string
  current_price :: real
  market_cap :: real
  total_volume :: real
  price_change_percentage_24h :: real
  price_change_percentage_24h_in_currency :: "real option"

text \<open>The scatter point \<^verbatim>\<open>{ x, y, name, image }\<close>.\<close>

record scatter_point = point +
  point_name :: string
  point_image :: string

text \<open>
  \<^verbatim>\<open>
  if (!marketData || marketData.length === 0) return [];
  return marketData.map(coin => {
    const dailyReturn = (coin as any)[`price_change_percentage_24h_in_currency`] / 100 || 0;
    const volatility = Math.abs(dailyReturn) * Math.sqrt(365);
    const annualReturn = (1 + dailyReturn)**365 - 1;
    return { x: volatility, y: annualReturn, name: coin.name, image: coin.image };
  });
  \<close>
  \<^verbatim>\<open>undefined / 100\<close> is \<^verbatim>\<open>NaN\<close>, and \<^verbatim>\<open>v || 0\<close> is 0 when \<^verbatim>\<open>v\<close> is \<^verbatim>\<open>NaN\<close> or zero.
  \<^verbatim>\<open>marketData\<close> has the type \<^verbatim>\<open>CryptoStats[]\<close>, an array. The parameter \<^verbatim>\<open>days\<close>
  only goes into \<^verbatim>\<open>priceChangeKey\<close>, which is not used.
\<close>

definition dailyReturn :: "CryptoStats \<Rightarrow> real" where
  "dailyReturn coin =
     (case price_change_percentage_24h_in_currency coin of
        None \<Rightarrow> 0
      | Some c \<Rightarrow> if c / 100 = 0 then 0 else c / 100)"

definition useRiskReturnAnalysis :: "CryptoStats list \<Rightarrow> int \<Rightarrow> scatter_point list" where
  "useRiskReturnAnalysis marketData days =
     (if length marketData = 0 then []
      else map (\<lambda>coin.
             (let volatility = \<bar>dailyReturn coin\<bar> * sqrt 365;
                  annualReturn = (1 + dailyReturn coin) ^ 365 - 1
              in \<lparr>point_x = volatility, point_y = annualReturn,
                  point_name = coin_name coin, point_image = coin_image coin\<rparr>)) marketData)"

section \<open>Closed forms used in the proofs\<close>

text \<open>
  The point that one iteration of the loop of \<open>calculateSMA\<close> pushes at index \<open>i\<close>,
  with the window written as a segment of \<open>data\<close>.
\<close>

definition sma_point :: "price list \<Rightarrow> real list \<Rightarrow> int \<Rightarrow> int \<Rightarrow> point" where
  "sma_point prices data period i =
     \<lparr>point_x = fst (prices ! nat i),
      point_y = sum_list (take (nat period) (drop (nat (i - period + 1)) data)) / real_of_int period\<rparr>"

section \<open>The relative strength index, recomputed at every point\<close>

text \<open>
  The reference that the incremental loop of \<open>calculateRSI\<close> is compared with. It
  follows the description of the indicator, not the code: at every emission index
  \<open>i\<close> it recomputes in full, over the \<open>period\<close> most recent deltas (those with
  indices \<open>i - period + 1, \<dots>, i\<close>), the sum of the positive deltas and the sum of
  the magnitudes of the negative ones.
\<close>

text \<open>The delta between the samples \<open>j - 1\<close> and \<open>j\<close>.\<close>

definition delta :: "real list \<Rightarrow> int \<Rightarrow> real" where
  "delta data j = data ! nat j - data ! nat (j - 1)"

text \<open>The sums of the positive deltas, and of the magnitudes of the negative deltas, with indices \<open>lo, \<dots>, hi\<close>.\<close>

definition gains_from :: "real list \<Rightarrow> int \<Rightarrow> int \<Rightarrow> real" where
  "gains_from data lo hi = sum_list (map (\<lambda>j. max (delta data j) 0) [lo .. hi])"

definition losses_from :: "real list \<Rightarrow> int \<Rightarrow> int \<Rightarrow> real" where
  "losses_from data lo hi = sum_list (map (\<lambda>j. max (- delta data j) 0) [lo .. hi])"

text \<open>
  \<open>RSI = 100 - 100 / (1 + RS)\<close> with \<open>RS = avgGain / avgLoss\<close>, the divisor replaced by
  1 when \<open>avgLoss\<close> is zero.
\<close>

definition rsi_value :: "int \<Rightarrow> real \<Rightarrow> real \<Rightarrow> real" where
  "rsi_value period g l =
     (let avgGain = g / real_of_int period;
          avgLoss = l / real_of_int period;
          RS = avgGain / (if avgLoss = 0 then 1 else avgLoss)
      in 100 - 100 / (1 + RS))"

text \<open>The point of the sample \<open>i\<close>, from the two sums over its window.\<close>

definition naive_point :: "price list \<Rightarrow> real list \<Rightarrow> int \<Rightarrow> int \<Rightarrow> point" where
  "naive_point prices data period i =
     \<lparr>point_x = fst (prices ! nat i),
      point_y = rsi_value period (gains_from data (i - period + 1) i)
                  (losses_from data (i - period + 1) i)\<rparr>"

text \<open>One point for each sample from index \<open>period\<close> on.\<close>

definition naiveRSI :: "price list \<Rightarrow> real list \<Rightarrow> int \<Rightarrow> point list" where
  "naiveRSI prices data period =
     map (naive_point prices data period) [period .. int (length data) - 1]"

section \<open>The relative strength index in binary64 arithmetic\<close>

text \<open>
  The two accumulators of \<open>calculateRSI\<close> take every delta twice, once added and once
  subtracted, so here the rounding of the JavaScript numbers matters. This section is a
  second embedding of \<open>calculateRSI\<close>, on IEEE 754 binary64 values with the default
  rounding (to nearest, ties to even), which is the arithmetic of JavaScript.
\<close>

text \<open>
  A number: a finite value (\<open>Finite 0\<close> is \<^verbatim>\<open>+0\<close>), \<^verbatim>\<open>-0\<close>, the two infinities and
  \<^verbatim>\<open>NaN\<close>.
\<close>

datatype double = Finite real | NegZero | PosInf | NegInf | NaN

text \<open>For \<open>m > 0\<close>, the exponent \<open>e\<close> with \<open>2 ^ e \<le> m < 2 ^ (e + 1)\<close>.\<close>

definition floor_log2 :: "real \<Rightarrow> int" where
  "floor_log2 m = (if 1 \<le> m then bitlen \<lfloor>m\<rfloor> - 1 else - bitlen (\<lceil>1 / m\<rceil> - 1))"

text \<open>The nearest integer, the even one of the two when \<open>y\<close> is half way between them.\<close>

definition round_even :: "real \<Rightarrow> int" where
  "round_even y =
     (let f = \<lfloor>y\<rfloor>; d = y - of_int f
      in if d < 1 / 2 then f else if 1 / 2 < d then f + 1 else if even f then f else f + 1)"

text \<open>
  The magnitude \<open>m > 0\<close> rounded to 53 significant bits: to a multiple of
  \<open>2 ^ (e - 52)\<close>, where \<open>e\<close> is the exponent of \<open>m\<close>, and not less than -1022 (below
  it the numbers are subnormal, all multiples of \<open>2 ^ - 1074\<close>).
\<close>

definition round_magnitude :: "real \<Rightarrow> real" where
  "round_magnitude m =
     (let e = max (floor_log2 m) (- 1022); q = 2 powi (e - 52)
      in of_int (round_even (m / q)) * q)"

text \<open>
  The binary64 value of the exact result \<open>r\<close>: a rounded magnitude of \<open>2 ^ 1024\<close> or
  more overflows to an infinity, and one of zero keeps the sign of \<open>r\<close>. An exact
  result of zero has the sign that the operation gives it, \<^verbatim>\<open>+0\<close> here.
\<close>

definition round_double :: "real \<Rightarrow> double" where
  "round_double r =
     (if r = 0 then Finite 0
      else
        (let m = round_magnitude \<bar>r\<bar>
         in if 2 ^ 1024 \<le> m then (if r < 0 then NegInf else PosInf)
            else if m = 0 then (if r < 0 then NegZero else Finite 0)
            else Finite (if r < 0 then - m else m)))"

definition is_negative :: "double \<Rightarrow> bool" where
  "is_negative x = (case x of Finite r \<Rightarrow> r < 0 | NegZero \<Rightarrow> True | NegInf \<Rightarrow> True | _ \<Rightarrow> False)"

definition is_zero :: "double \<Rightarrow> bool" where
  "is_zero x = (x = Finite 0 \<or> x = NegZero)"

definition is_infinite :: "double \<Rightarrow> bool" where
  "is_infinite x = (x = PosInf \<or> x = NegInf)"

definition signed_zero :: "bool \<Rightarrow> double" where
  "signed_zero negative = (if negative then NegZero else Finite 0)"

definition signed_infinity :: "bool \<Rightarrow> double" where
  "signed_infinity negative = (if negative then NegInf else PosInf)"

text \<open>\<^verbatim>\<open>-x\<close>.\<close>

definition double_neg :: "double \<Rightarrow> double" where
  "double_neg x =
     (case x of
        Finite r \<Rightarrow> if r = 0 then NegZero else Finite (- r)
      | NegZero \<Rightarrow> Finite 0
      | PosInf \<Rightarrow> NegInf
      | NegInf \<Rightarrow> PosInf
      | NaN \<Rightarrow> NaN)"

text \<open>
  \<^verbatim>\<open>x + y\<close>. The sum of the two infinities is \<^verbatim>\<open>NaN\<close>; \<^verbatim>\<open>-0\<close> is neutral, and the sum
  of two zeros is \<^verbatim>\<open>-0\<close> only when both are; a sum of finite numbers that is exactly zero
  is \<^verbatim>\<open>+0\<close>.
\<close>

definition double_add :: "double \<Rightarrow> double \<Rightarrow> double" where
  "double_add x y =
     (if x = NaN \<or> y = NaN then NaN
      else if is_infinite x then (if is_infinite y \<and> y \<noteq> x then NaN else x)
      else if is_infinite y then y
      else if x = NegZero then y
      else if y = NegZero then x
      else (case (x, y) of (Finite a, Finite b) \<Rightarrow> round_double (a + b) | _ \<Rightarrow> NaN))"

text \<open>\<^verbatim>\<open>x - y\<close>, which is \<^verbatim>\<open>x + (-y)\<close>.\<close>

definition double_sub :: "double \<Rightarrow> double \<Rightarrow> double" where
  "double_sub x y = double_add x (double_neg y)"

text \<open>
  \<^verbatim>\<open>x / y\<close>. The sign of the result is negative when the signs of the operands differ;
  \<^verbatim>\<open>0 / 0\<close> and the quotient of two infinities are \<^verbatim>\<open>NaN\<close>, a non-zero number
  divided by zero is an infinity.
\<close>

definition double_div :: "double \<Rightarrow> double \<Rightarrow> double" where
  "double_div x y =
     (if x = NaN \<or> y = NaN then NaN
      else
        (let negative = (is_negative x \<noteq> is_negative y)
         in if is_infinite x then (if is_infinite y then NaN else signed_infinity negative)
            else if is_infinite y then signed_zero negative
            else if is_zero y then (if is_zero x then NaN else signed_infinity negative)
            else if is_zero x then signed_zero negative
            else (case (x, y) of (Finite a, Finite b) \<Rightarrow> round_double (a / b) | _ \<Rightarrow> NaN)))"

text \<open>\<^verbatim>\<open>x > 0\<close>, which is false of \<^verbatim>\<open>NaN\<close>.\<close>

definition greater_zero :: "double \<Rightarrow> bool" where
  "greater_zero x = (case x of Finite r \<Rightarrow> 0 < r | PosInf \<Rightarrow> True | _ \<Rightarrow> False)"

text \<open>The numbers that \<^verbatim>\<open>||\<close> takes for false: \<^verbatim>\<open>NaN\<close> and the two zeros.\<close>

definition falsy :: "double \<Rightarrow> bool" where
  "falsy x = (x = NaN \<or> is_zero x)"

text \<open>\<^verbatim>\<open>data[i]\<close> as an operand of arithmetic: \<^verbatim>\<open>undefined\<close> becomes \<^verbatim>\<open>NaN\<close>.\<close>

definition number_at :: "double list \<Rightarrow> int \<Rightarrow> double" where
  "number_at xs i = (case at_index xs i of None \<Rightarrow> NaN | Some v \<Rightarrow> v)"

record point_double =
  double_x :: double
  double_y :: double

text \<open>
  The loop of \<open>calculateRSI\<close>, statement by statement as in \<open>rsi_loop\<close>. Nothing stops
  it here: a \<^verbatim>\<open>NaN\<close> or an infinity is a value like any other, and only
  \<^verbatim>\<open>prices[i][0]\<close> can throw. The index, the length and \<^verbatim>\<open>period\<close> are integers.
\<close>

function rsi_loop_double :: "(double \<times> double) list \<Rightarrow> double list \<Rightarrow> int \<Rightarrow> int \<Rightarrow> double \<Rightarrow> double
    \<Rightarrow> point_double list \<Rightarrow> error + point_double list" where
  "rsi_loop_double prices data period i gains losses out =
     (if i < int (length data) then
        (let change = double_sub (number_at data i) (number_at data (i - 1));
             gains1 = (if greater_zero change then double_add gains change else gains);
             losses1 = (if greater_zero change then losses else double_sub losses change)
         in if i \<ge> period then
              (let avgGain = double_div gains1 (round_double (of_int period));
                   avgLoss = double_div losses1 (round_double (of_int period));
                   rs = double_div avgGain (if falsy avgLoss then Finite 1 else avgLoss);
                   rsiValue = double_sub (Finite 100) (double_div (Finite 100) (double_add (Finite 1) rs))
               in case at_index prices i of
                    None \<Rightarrow> Inl TypeError
                  | Some p \<Rightarrow>
                      (let prevChange = double_sub (number_at data (i - period + 1))
                                          (number_at data (i - period));
                           gains2 = (if greater_zero prevChange then double_sub gains1 prevChange
                                     else gains1);
                           losses2 = (if greater_zero prevChange then losses1
                                      else double_add losses1 prevChange)
                       in rsi_loop_double prices data period (i + 1) gains2 losses2
                            (out @ [\<lparr>double_x = fst p, double_y = rsiValue\<rparr>])))
            else rsi_loop_double prices data period (i + 1) gains1 losses1 out)
      else Inr out)"
  by pat_completeness auto
termination
  by (relation "measure (\<lambda>(prices, data, period, i, gains, losses, out). nat (int (length data) - i))") auto

definition calculateRSI_double :: "(double \<times> double) list \<Rightarrow> double list \<Rightarrow> int
    \<Rightarrow> error + point_double list" where
  "calculateRSI_double prices data period =
     rsi_loop_double prices data period 1 (Finite 0) (Finite 0) []"

text \<open>
  The recomputation in binary64 arithmetic: the two sums over the deltas with the
  indices \<open>i - period + 1, \<dots>, i\<close>, accumulated from zero, and the value of the index
  from them.
\<close>

definition window_sums_double :: "double list \<Rightarrow> int \<Rightarrow> int \<Rightarrow> double \<times> double" where
  "window_sums_double data period i =
     foldl (\<lambda>(gains, losses) j.
              (let change = double_sub (number_at data j) (number_at data (j - 1))
               in if greater_zero change then (double_add gains change, losses)
                  else (gains, double_sub losses change)))
       (Finite 0, Finite 0) [i - period + 1 .. i]"

definition naiveRSI_value_double :: "double list \<Rightarrow> int \<Rightarrow> int \<Rightarrow> double" where
  "naiveRSI_value_double data period i =
     (let (gains, losses) = window_sums_double data period i;
          avgGain = double_div gains (round_double (of_int period));
          avgLoss = double_div losses (round_double (of_int period));
          RS = double_div avgGain (if falsy avgLoss then Finite 1 else avgLoss)
      in double_sub (Finite 100) (double_div (Finite 100) (double_add (Finite 1) RS)))"

text \<open>
  The prices as they are read: every decimal numeral of the response becomes the
  nearest binary64 value.
\<close>

definition read_prices :: "(real \<times> real) list \<Rightarrow> (double \<times> double) list" where
  "read_prices ps = map (\<lambda>(t, v). (round_double t, round_double v)) ps"

text \<open>
  Nineteen daily prices: 27.3, 14.7, 9.9, 15.7, and 36.4 from the fifth day on, with
  the timestamps 0 to 18.
\<close>

definition drifting_prices :: "(real \<times> real) list" where
  "drifting_prices =
     [(0, 27.3), (1, 14.7), (2, 9.9), (3, 15.7), (4, 36.4), (5, 36.4), (6, 36.4), (7, 36.4),
      (8, 36.4), (9, 36.4), (10, 36.4), (11, 36.4), (12, 36.4), (13, 36.4), (14, 36.4),
      (15, 36.4), (16, 36.4), (17, 36.4), (18, 36.4)]"

section \<open>Arrays\<close>

declare sma_loop.simps [simp del]
declare rsi_loop.simps [simp del]
declare rsi_loop_double.simps [simp del]

lemma at_index_in_range:
  "0 \<le> i \<Longrightarrow> i < int (length xs) \<Longrightarrow> at_index xs i = Some (xs ! nat i)"
  by (simp add: at_index_def)

lemma foldl_add_sum_list:
  "foldl (\<lambda>acc val. acc + val) a xs = a + sum_list (xs :: real list)"
  by (induction xs arbitrary: a) (simp_all add: add.assoc)

lemma slice_in_range:
  assumes "0 \<le> a" "a \<le> b" "b \<le> int (length xs)"
  shows "slice xs a b = take (nat (b - a)) (drop (nat a) xs)"
  using assms by (simp add: slice_def Let_def min_def)

lemma slice_from_trailing:
  "0 < n \<Longrightarrow> slice_from xs (- n) = drop (length xs - nat n) xs"
  by (auto simp add: slice_from_def slice_def Let_def max_def min_def nat_diff_distrib)

section \<open>The moving average\<close>

lemma sma_loop_stop:
  "\<not> i < int (length data) \<Longrightarrow> sma_loop prices data period i sma = Inr sma"
  by (subst sma_loop.simps) simp

lemma sma_loop_step:
  assumes "1 \<le> period" "period - 1 \<le> i" "i < int (length data)" "length data \<le> length prices"
  shows "sma_loop prices data period i sma =
         sma_loop prices data period (i + 1) (sma @ [sma_point prices data period i])"
proof -
  have a: "at_index prices i = Some (prices ! nat i)"
    using assms by (intro at_index_in_range) auto
  have s: "slice data (i - period + 1) (i + 1) = take (nat period) (drop (nat (i - period + 1)) data)"
    using assms by (subst slice_in_range) auto
  show ?thesis
    using assms(1) by (subst sma_loop.simps) (simp add: a s assms(3) foldl_add_sum_list sma_point_def)
qed

lemma sma_loop_eq:
  assumes "1 \<le> period" "period - 1 \<le> i" "length data \<le> length prices"
  shows "sma_loop prices data period i sma =
         Inr (sma @ map (sma_point prices data period) [i .. int (length data) - 1])"
  using assms(2)
proof (induction "nat (int (length data) - i)" arbitrary: i sma)
  case 0
  then show ?case by (simp add: sma_loop_stop)
next
  case (Suc n)
  then have lt: "i < int (length data)" by linarith
  have n: "n = nat (int (length data) - (i + 1))" using Suc.hyps(2) by linarith
  have "sma_loop prices data period i sma =
        sma_loop prices data period (i + 1) (sma @ [sma_point prices data period i])"
    using assms(1) Suc.prems lt assms(3) by (rule sma_loop_step)
  also have "\<dots> = Inr ((sma @ [sma_point prices data period i]) @
                      map (sma_point prices data period) [i + 1 .. int (length data) - 1])"
    using Suc.prems by (intro Suc.hyps(1) n) simp
  also have "\<dots> = Inr (sma @ map (sma_point prices data period) [i .. int (length data) - 1])"
    using lt by (simp add: upto_rec1 [of i])
  finally show ?case .
qed

lemma calculateSMA_eq:
  "1 \<le> period \<Longrightarrow> length data \<le> length prices \<Longrightarrow>
   calculateSMA prices data period =
     Inr (map (sma_point prices data period) [period - 1 .. int (length data) - 1])"
  by (simp add: calculateSMA_def sma_loop_eq)

lemma sum_list_take_drop:
  "k + n \<le> length xs \<Longrightarrow> sum_list (take n (drop k xs)) = (\<Sum>j = k ..< k + n. (xs ! j :: real))"
proof -
  assume h: "k + n \<le> length xs"
  have "sum_list (take n (drop k xs)) = (\<Sum>j = 0 ..< n. take n (drop k xs) ! j)"
    using h by (simp add: sum_list_sum_nth)
  also have "\<dots> = (\<Sum>j = 0 ..< n. xs ! (k + j))"
    using h by (intro sum.cong) auto
  also have "\<dots> = (\<Sum>j = k ..< k + n. xs ! j)"
    using sum.shift_bounds_nat_ivl [of "\<lambda>j. xs ! j" 0 k n] by (simp add: add.commute)
  finally show ?thesis .
qed

text \<open>
  C3. For every price series of length \<open>N\<close> and every positive window \<open>W\<close>,
  \<open>calculateSMA\<close> returns exactly \<open>max 0 (N - W + 1)\<close> points and raises nothing;
  the value of the \<open>k\<close>-th point is the arithmetic mean of the \<open>W\<close> consecutive
  closing values at the indices \<open>k, \<dots>, k + W - 1\<close>, and its timestamp is the
  timestamp of the input sample at the last of them, \<open>W - 1 + k\<close>; a window longer
  than the series gives the empty sequence.
\<close>

theorem sma_window_mean:
  assumes "1 \<le> W"
  shows "\<exists>pts. calculateSMA prices (map snd prices) W = Inr pts
           \<and> int (length pts) = max 0 (int (length prices) - W + 1)
           \<and> (\<forall>k < length pts.
                 point_y (pts ! k) = (\<Sum>j = k ..< k + nat W. snd (prices ! j)) / real_of_int W
               \<and> point_x (pts ! k) = fst (prices ! (nat W - 1 + k)))
           \<and> (int (length prices) < W \<longrightarrow> pts = [])"
proof -
  let ?data = "map snd prices"
  let ?pts = "map (sma_point prices ?data W) [W - 1 .. int (length ?data) - 1]"
  have eq: "calculateSMA prices ?data W = Inr ?pts"
    using assms by (intro calculateSMA_eq) simp_all
  have len: "int (length ?pts) = max 0 (int (length prices) - W + 1)"
    by simp
  have pt: "point_y (?pts ! k) = (\<Sum>j = k ..< k + nat W. snd (prices ! j)) / real_of_int W
          \<and> point_x (?pts ! k) = fst (prices ! (nat W - 1 + k))" if k: "k < length ?pts" for k
  proof -
    from k have kb: "int k + W \<le> int (length prices)" by simp
    have nth: "?pts ! k = sma_point prices ?data W (W - 1 + int k)"
      using k by simp
    have i: "nat (W - 1 + int k - W + 1) = k" by simp
    have bound: "k + nat W \<le> length ?data" using kb assms by simp
    have "sum_list (take (nat W) (drop k ?data)) = (\<Sum>j = k ..< k + nat W. ?data ! j)"
      using bound by (rule sum_list_take_drop)
    also have "\<dots> = (\<Sum>j = k ..< k + nat W. snd (prices ! j))"
      using bound by (intro sum.cong) auto
    finally have sum: "sum_list (take (nat W) (drop k ?data)) = (\<Sum>j = k ..< k + nat W. snd (prices ! j))" .
    have x: "nat (W - 1 + int k) = nat W - 1 + k" using assms by linarith
    show ?thesis
      unfolding nth sma_point_def by (simp add: i sum x)
  qed
  have empty: "int (length prices) < W \<longrightarrow> ?pts = []" by simp
  show ?thesis using eq len pt empty by blast
qed

text \<open>
  The series 1, 2, 6 with window 2: two points, the second the mean of 2 and 6. With
  window 5: no point.
\<close>

theorem sma_window_mean_witness:
  "(\<exists>pts. calculateSMA [(10, 1), (20, 2), (30, 6)] (map snd [(10::real, 1::real), (20, 2), (30, 6)]) 2 = Inr pts
      \<and> length pts = 2 \<and> point_y (pts ! 1) = 4 \<and> point_x (pts ! 1) = 30)
   \<and> calculateSMA [(10, 1), (20, 2), (30, 6)] (map snd [(10::real, 1::real), (20, 2), (30, 6)]) 5 = Inr []"
proof -
  have h: "(1::int) \<le> 2" and h5: "(1::int) \<le> 5" by simp_all
  have short: "int (length [(10::real, 1::real), (20, 2), (30, 6)]) < 5" by simp
  from sma_window_mean [OF h5, of "[(10, 1), (20, 2), (30, 6)]"] short
  have e: "calculateSMA [(10, 1), (20, 2), (30, 6)] (map snd [(10::real, 1::real), (20, 2), (30, 6)]) 5 = Inr []"
    by blast
  from sma_window_mean [OF h, of "[(10, 1), (20, 2), (30, 6)]"]
  obtain pts where p: "calculateSMA [(10, 1), (20, 2), (30, 6)] (map snd [(10::real, 1::real), (20, 2), (30, 6)]) 2 = Inr pts"
    "int (length pts) = max 0 (int (length [(10::real, 1::real), (20, 2), (30, 6)]) - 2 + 1)"
    "\<forall>k < length pts.
         point_y (pts ! k) = (\<Sum>j = k ..< k + nat 2. snd ([(10::real, 1::real), (20, 2), (30, 6)] ! j)) / real_of_int 2
       \<and> point_x (pts ! k) = fst ([(10::real, 1::real), (20, 2), (30, 6)] ! (nat 2 - 1 + k))"
    by blast
  from p(2) have l: "length pts = 2" by simp
  have "1 < length pts" using l by simp
  from p(3) [rule_format, OF this]
  have "point_y (pts ! 1) = 4 \<and> point_x (pts ! 1) = 30"
    by (simp add: sum.atLeast_Suc_lessThan)
  with p(1) l e show ?thesis by blast
qed

section \<open>The sliding window of the relative strength index\<close>

lemma gains_from_nonneg: "0 \<le> gains_from data lo hi"
  unfolding gains_from_def by (rule sum_list_nonneg) auto

lemma losses_from_nonneg: "0 \<le> losses_from data lo hi"
  unfolding losses_from_def by (rule sum_list_nonneg) auto

lemma gains_from_snoc:
  "lo \<le> hi + 1 \<Longrightarrow> gains_from data lo (hi + 1) = gains_from data lo hi + max (delta data (hi + 1)) 0"
  by (simp add: gains_from_def upto_rec2 [of lo "hi + 1"])

lemma losses_from_snoc:
  "lo \<le> hi + 1 \<Longrightarrow> losses_from data lo (hi + 1) = losses_from data lo hi + max (- delta data (hi + 1)) 0"
  by (simp add: losses_from_def upto_rec2 [of lo "hi + 1"])

lemma gains_from_drop:
  "lo \<le> hi \<Longrightarrow> gains_from data (lo + 1) hi = gains_from data lo hi - max (delta data lo) 0"
  by (simp add: gains_from_def upto_rec1 [of lo hi])

lemma losses_from_drop:
  "lo \<le> hi \<Longrightarrow> losses_from data (lo + 1) hi = losses_from data lo hi - max (- delta data lo) 0"
  by (simp add: losses_from_def upto_rec1 [of lo hi])

lemma rsi_loop_stop:
  "\<not> i < int (length data) \<Longrightarrow> rsi_loop prices data period i gains losses out = Inr out"
  by (subst rsi_loop.simps) simp

lemma add_change:
  fixes c :: real
  shows "(if c > 0 then g + c else g) = g + max c 0"
    and "(if c > 0 then l else l - c) = l + max (- c) 0"
  by (simp_all add: max_def)

lemma remove_change:
  fixes c :: real
  shows "(if c > 0 then g - c else g) = g - max c 0"
    and "(if c > 0 then l else l + c) = l - max (- c) 0"
  by (simp_all add: max_def)

lemma rsi_loop_skip:
  assumes "1 \<le> i" "i < period" "i < int (length data)"
  shows "rsi_loop prices data period i gains losses out =
         rsi_loop prices data period (i + 1)
           (gains + max (delta data i) 0) (losses + max (- delta data i) 0) out"
proof -
  have a: "at_index data i = Some (data ! nat i)" "at_index data (i - 1) = Some (data ! nat (i - 1))"
    using assms by (simp_all add: at_index_in_range)
  have n: "\<not> period \<le> i" using assms(2) by simp
  show ?thesis
    by (subst rsi_loop.simps)
      (simp only: a assms(3) n if_True if_False prod.case option.case Let_def add_change delta_def)
qed

lemma rsi_rs_nonneg:
  assumes "1 \<le> period" "0 \<le> g" "0 \<le> l"
  shows "0 \<le> g / real_of_int period / (if l / real_of_int period = 0 then 1 else l / real_of_int period)"
  using assms by simp

lemma rsi_loop_emit:
  assumes "1 \<le> period" "period \<le> i" "i < int (length data)" "length data \<le> length prices"
    and "0 \<le> gains" "0 \<le> losses"
  shows "rsi_loop prices data period i gains losses out =
         rsi_loop prices data period (i + 1)
           (gains + max (delta data i) 0 - max (delta data (i - period + 1)) 0)
           (losses + max (- delta data i) 0 - max (- delta data (i - period + 1)) 0)
           (out @ [\<lparr>point_x = fst (prices ! nat i),
                    point_y = rsi_value period (gains + max (delta data i) 0)
                                (losses + max (- delta data i) 0)\<rparr>])"
proof -
  let ?g = "gains + max (delta data i) 0" and ?l = "losses + max (- delta data i) 0"
  have a: "at_index data i = Some (data ! nat i)" "at_index data (i - 1) = Some (data ! nat (i - 1))"
    "at_index data (i - period + 1) = Some (data ! nat (i - period + 1))"
    "at_index data (i - period) = Some (data ! nat (i - period))"
    "at_index prices i = Some (prices ! nat i)"
    using assms by (simp_all add: at_index_in_range)
  have nn: "0 \<le> ?g" "0 \<le> ?l" using assms(5,6) by simp_all
  have rs: "1 + ?g / real_of_int period / (if ?l / real_of_int period = 0 then 1 else ?l / real_of_int period) \<noteq> 0"
    using rsi_rs_nonneg [OF assms(1) nn] by linarith
  have d: "nat (i - period + 1 - 1) = nat (i - period)" by simp
  have v: "100 - 100 / (1 + ?g / real_of_int period / (if ?l / real_of_int period = 0 then 1 else ?l / real_of_int period))
           = rsi_value period ?g ?l"
    by (simp add: rsi_value_def Let_def)
  have p0: "period \<noteq> 0" using assms(1) by simp
  show ?thesis
    apply (subst rsi_loop.simps)
    apply (simp only: a assms(2,3) if_True prod.case option.case Let_def add_change remove_change p0 if_False)
    apply (simp only: delta_def [symmetric] d [symmetric])
    apply (simp only: rs if_False v)
    done
qed


lemma rsi_loop_window:
  assumes "1 \<le> period" "length data \<le> length prices"
    and "1 \<le> i"
    and "gains = gains_from data (max 1 (i - period + 1)) (i - 1)"
    and "losses = losses_from data (max 1 (i - period + 1)) (i - 1)"
  shows "rsi_loop prices data period i gains losses out =
         Inr (out @ map (naive_point prices data period) [max i period .. int (length data) - 1])"
  using assms(3-5)
proof (induction "nat (int (length data) - i)" arbitrary: i gains losses out)
  case 0
  then show ?case by (simp add: rsi_loop_stop)
next
  case (Suc n)
  then have lt: "i < int (length data)" by linarith
  have n: "n = nat (int (length data) - (i + 1))" using Suc.hyps(2) by linarith
  let ?lo = "max 1 (i - period + 1)"
  have lo: "?lo \<le> i - 1 + 1" using Suc.prems(1) assms(1) by simp
  have g: "gains + max (delta data i) 0 = gains_from data ?lo i"
    using gains_from_snoc [OF lo, of data] Suc.prems(2) by simp
  have l: "losses + max (- delta data i) 0 = losses_from data ?lo i"
    using losses_from_snoc [OF lo, of data] Suc.prems(3) by simp
  show ?case
  proof (cases "period \<le> i")
    case True
    then have lo_eq: "?lo = i - period + 1" by simp
    have lo_le: "i - period + 1 \<le> i" using assms(1) by simp
    have nn: "0 \<le> gains" "0 \<le> losses"
      using Suc.prems(2,3) by (simp_all add: gains_from_nonneg losses_from_nonneg)
    have next_lo: "max 1 (i + 1 - period + 1) = i - period + 1 + 1" using True by simp
    have "rsi_loop prices data period i gains losses out =
          rsi_loop prices data period (i + 1)
            (gains_from data (i - period + 1 + 1) i) (losses_from data (i - period + 1 + 1) i)
            (out @ [naive_point prices data period i])"
      using rsi_loop_emit [OF assms(1) True lt assms(2) nn, of out]
      by (simp only: g l lo_eq naive_point_def gains_from_drop [OF lo_le] losses_from_drop [OF lo_le])
    also have "\<dots> = Inr ((out @ [naive_point prices data period i]) @
                   map (naive_point prices data period) [max (i + 1) period .. int (length data) - 1])"
      using Suc.prems(1) by (intro Suc.hyps(1) n) (simp_all only: next_lo add_diff_cancel_right')
    also have "\<dots> = Inr (out @ map (naive_point prices data period) [max i period .. int (length data) - 1])"
      using True lt by (simp add: upto_rec1 [of i] max_def)
    finally show ?thesis .
  next
    case False
    then have lo_eq: "?lo = 1" "max 1 (i + 1 - period + 1) = 1" by simp_all
    have "rsi_loop prices data period i gains losses out =
          rsi_loop prices data period (i + 1) (gains_from data 1 i) (losses_from data 1 i) out"
      using rsi_loop_skip [of i period data prices gains losses out] Suc.prems(1) False lt
      by (simp only: g l lo_eq)
    also have "\<dots> = Inr (out @ map (naive_point prices data period) [max (i + 1) period .. int (length data) - 1])"
      using Suc.prems(1) by (intro Suc.hyps(1) n) (simp_all only: lo_eq add_diff_cancel_right')
    also have "\<dots> = Inr (out @ map (naive_point prices data period) [max i period .. int (length data) - 1])"
      using False by (simp add: max_def)
    finally show ?thesis .
  qed
qed

lemma calculateRSI_naive:
  assumes "1 \<le> period" "length data \<le> length prices"
  shows "calculateRSI prices data period = Inr (naiveRSI prices data period)"
proof -
  have e: "[max 1 (1 - period + 1) .. 1 - 1] = []" by simp
  have "rsi_loop prices data period 1 0 0 [] =
        Inr ([] @ map (naive_point prices data period) [max 1 period .. int (length data) - 1])"
    using assms by (intro rsi_loop_window) (simp_all only: gains_from_def losses_from_def e list.map sum_list.Nil)
  then show ?thesis
    using assms(1) by (simp add: calculateRSI_def naiveRSI_def max_def)
qed

lemma rsi_value_bounds:
  assumes "1 \<le> period" "0 \<le> g" "0 \<le> l"
  shows "0 \<le> rsi_value period g l" and "rsi_value period g l < 100"
proof -
  let ?rs = "g / real_of_int period / (if l / real_of_int period = 0 then 1 else l / real_of_int period)"
  have rs: "0 \<le> ?rs" using assms by (rule rsi_rs_nonneg)
  then have pos: "0 < 1 + ?rs" by linarith
  have "100 / (1 + ?rs) \<le> 100"
    using rs pos by (simp add: divide_le_eq)
  moreover have "0 < 100 / (1 + ?rs)" using pos by simp
  ultimately show "0 \<le> rsi_value period g l" and "rsi_value period g l < 100"
    by (simp_all add: rsi_value_def Let_def)
qed

lemma naive_point_bounds:
  assumes "1 \<le> period"
  shows "0 \<le> point_y (naive_point prices data period i)"
    and "point_y (naive_point prices data period i) < 100"
  using rsi_value_bounds [OF assms gains_from_nonneg losses_from_nonneg]
  by (simp_all add: naive_point_def)

lemma length_naiveRSI:
  "int (length (naiveRSI prices data period)) = max 0 (int (length data) - period)"
  by (simp add: naiveRSI_def)

lemma nth_naiveRSI:
  "k < length (naiveRSI prices data period) \<Longrightarrow>
   naiveRSI prices data period ! k = naive_point prices data period (period + int k)"
  by (simp add: naiveRSI_def)

lemma sum_list_map_zero:
  "(\<And>x. x \<in> set xs \<Longrightarrow> f x = (0::real)) \<Longrightarrow> sum_list (map f xs) = 0"
  by (induction xs) simp_all


lemma flat_window:
  assumes "\<forall>v \<in> set data. v = c" "1 \<le> lo" "hi < int (length data)"
  shows "gains_from data lo hi = 0" and "losses_from data lo hi = 0"
proof -
  have d: "delta data j = 0" if "j \<in> set [lo .. hi]" for j
  proof -
    from that assms have "nat j < length data" "nat (j - 1) < length data" by auto
    then have "data ! nat j = c" "data ! nat (j - 1) = c" using assms(1) by auto
    then show ?thesis by (simp add: delta_def)
  qed
  show "gains_from data lo hi = 0" unfolding gains_from_def
    by (rule sum_list_map_zero) (simp add: d)
  show "losses_from data lo hi = 0" unfolding losses_from_def
    by (rule sum_list_map_zero) (simp add: d)
qed



lemma rsi_value_flat: "rsi_value period 0 0 = 0"
  by (simp add: rsi_value_def)


section \<open>The range of the index\<close>

text \<open>
  C10. In exact arithmetic, for every price series and every window \<open>W \<ge> 1\<close>, every
  value that \<open>calculateRSI\<close> emits is strictly less than 100: the divisor is 1 when
  the loss of the window is zero, so \<open>RS\<close> is a non-negative real and
  \<open>100 - 100 / (1 + RS) < 100\<close>, also when the series only rises.
\<close>

theorem rsi_below_100:
  assumes "1 \<le> W"
  shows "\<exists>pts. calculateRSI prices (map snd prices) W = Inr pts
            \<and> (\<forall>p \<in> set pts. point_y p < 100)"
proof -
  have "calculateRSI prices (map snd prices) W = Inr (naiveRSI prices (map snd prices) W)"
    using assms by (intro calculateRSI_naive) simp_all
  moreover have "\<forall>p \<in> set (naiveRSI prices (map snd prices) W). point_y p < 100"
    using naive_point_bounds [OF assms] by (auto simp add: naiveRSI_def)
  ultimately show ?thesis by blast
qed

text \<open>
  The rising series 1, 2, 4 with window 2: the one emitted value is below 100.
\<close>

theorem rsi_below_100_witness:
  "\<exists>pts. calculateRSI [(10, 1), (20, 2), (30, 4)] (map snd [(10::real, 1::real), (20, 2), (30, 4)]) 2 = Inr pts
      \<and> pts \<noteq> [] \<and> point_y (hd pts) < 100"
proof -
  have h: "(1::int) \<le> 2" by simp
  from rsi_below_100 [OF h, of "[(10::real, 1::real), (20, 2), (30, 4)]"]
  obtain pts where p: "calculateRSI [(10, 1), (20, 2), (30, 4)] (map snd [(10::real, 1::real), (20, 2), (30, 4)]) 2 = Inr pts"
    "\<forall>p \<in> set pts. point_y p < 100"
    by blast
  have "calculateRSI [(10, 1), (20, 2), (30, 4)] (map snd [(10::real, 1::real), (20, 2), (30, 4)]) 2
          = Inr [\<lparr>point_x = 30, point_y = 60\<rparr>]"
    by (simp add: calculateRSI_def rsi_loop.simps at_index_def)
  with p(1) have ne: "pts \<noteq> []" by auto
  then have "hd pts \<in> set pts" by simp
  with p ne show ?thesis by blast
qed

section \<open>Where the index starts\<close>

text \<open>
  C8. For every price series of length \<open>N\<close> and every window \<open>W \<ge> 1\<close>,
  \<open>calculateRSI\<close> returns \<open>max 0 (N - W)\<close> points: the first for the input index
  \<open>W\<close> and one for every later sample, the \<open>k\<close>-th with the timestamp of the sample
  \<open>W + k\<close>. A series shorter than \<open>W + 1\<close> gives no point.
\<close>

theorem rsi_length_and_timestamps:
  assumes "1 \<le> W"
  shows "\<exists>pts. calculateRSI prices (map snd prices) W = Inr pts
            \<and> int (length pts) = max 0 (int (length prices) - W)
            \<and> (\<forall>k < length pts. point_x (pts ! k) = fst (prices ! (nat W + k)))
            \<and> (int (length prices) < W + 1 \<longrightarrow> pts = [])"
proof -
  let ?pts = "naiveRSI prices (map snd prices) W"
  have eq: "calculateRSI prices (map snd prices) W = Inr ?pts"
    using assms by (intro calculateRSI_naive) simp_all
  have len: "int (length ?pts) = max 0 (int (length prices) - W)"
    by (simp add: length_naiveRSI)
  have x: "point_x (?pts ! k) = fst (prices ! (nat W + k))" if "k < length ?pts" for k
  proof -
    have "nat (W + int k) = nat W + k" using assms by linarith
    then show ?thesis using that by (simp add: nth_naiveRSI naive_point_def)
  qed
  have e: "int (length prices) < W + 1 \<longrightarrow> ?pts = []"
    by (simp add: naiveRSI_def)
  from eq len x e show ?thesis by blast
qed

text \<open>
  The series 1, 3, 2 with window 1: two points, with the timestamps of the second and
  third sample. With window 3: no point.
\<close>

theorem rsi_length_and_timestamps_witness:
  "(\<exists>pts. calculateRSI [(10, 1), (20, 3), (30, 2)] (map snd [(10::real, 1::real), (20, 3), (30, 2)]) 1 = Inr pts
      \<and> length pts = 2 \<and> point_x (pts ! 0) = 20 \<and> point_x (pts ! 1) = 30)
   \<and> calculateRSI [(10, 1), (20, 3), (30, 2)] (map snd [(10::real, 1::real), (20, 3), (30, 2)]) 3 = Inr []"
proof -
  have h: "(1::int) \<le> 1" and h3: "(1::int) \<le> 3" by simp_all
  have short: "int (length [(10::real, 1::real), (20, 3), (30, 2)]) < 3 + 1" by simp
  from rsi_length_and_timestamps [OF h3, of "[(10::real, 1::real), (20, 3), (30, 2)]"] short
  have e: "calculateRSI [(10, 1), (20, 3), (30, 2)] (map snd [(10::real, 1::real), (20, 3), (30, 2)]) 3 = Inr []"
    by blast
  from rsi_length_and_timestamps [OF h, of "[(10::real, 1::real), (20, 3), (30, 2)]"]
  obtain pts where p: "calculateRSI [(10, 1), (20, 3), (30, 2)] (map snd [(10::real, 1::real), (20, 3), (30, 2)]) 1 = Inr pts"
    "int (length pts) = max 0 (int (length [(10::real, 1::real), (20, 3), (30, 2)]) - 1)"
    "\<forall>k < length pts. point_x (pts ! k) = fst ([(10::real, 1::real), (20, 3), (30, 2)] ! (nat 1 + k))"
    by blast
  from p(2) have l: "length pts = 2" by simp
  then have k: "0 < length pts" "1 < length pts" by simp_all
  from p(3) [rule_format, OF k(1)] p(3) [rule_format, OF k(2)]
  have "point_x (pts ! 0) = 20 \<and> point_x (pts ! 1) = 30" by simp
  with p(1) l e show ?thesis by blast
qed

section \<open>Flat and rising series\<close>

text \<open>
  C7. For every flat price series (every closing value equal to \<open>c\<close>) of length at
  least \<open>W + 1\<close>, with \<open>W \<ge> 1\<close>, \<open>calculateRSI\<close> emits \<open>N - W\<close> points, at least
  one, and the value of every one is 0: gains and losses are zero, the divisor is 1,
  \<open>RS = 0\<close>.
\<close>

theorem rsi_flat_is_zero:
  assumes "1 \<le> W" "\<forall>p \<in> set prices. snd p = c" "W + 1 \<le> int (length prices)"
  shows "\<exists>pts. calculateRSI prices (map snd prices) W = Inr pts
            \<and> int (length pts) = int (length prices) - W
            \<and> (\<forall>p \<in> set pts. point_y p = 0)"
proof -
  let ?data = "map snd prices"
  let ?pts = "naiveRSI prices ?data W"
  have eq: "calculateRSI prices ?data W = Inr ?pts"
    using assms(1) by (intro calculateRSI_naive) simp_all
  have len: "int (length ?pts) = int (length prices) - W"
    using assms(3) by (simp add: length_naiveRSI)
  have flat: "\<forall>v \<in> set ?data. v = c" using assms(2) by auto
  have "point_y (naive_point prices ?data W i) = 0" if "i \<in> set [W .. int (length ?data) - 1]" for i
  proof -
    from that assms(1) have b: "1 \<le> i - W + 1" "i < int (length ?data)" by auto
    show ?thesis
      by (simp only: naive_point_def point.simps flat_window [OF flat b] rsi_value_flat)
  qed
  then have zero: "\<forall>p \<in> set ?pts. point_y p = 0"
    by (auto simp add: naiveRSI_def)
  from eq len zero show ?thesis by blast
qed

text \<open>
  The flat series 4, 4, 4 with window 2: one point, of value 0.
\<close>

theorem rsi_flat_is_zero_witness:
  "\<exists>pts. calculateRSI [(10, 4), (20, 4), (30, 4)] (map snd [(10::real, 4::real), (20, 4), (30, 4)]) 2 = Inr pts
      \<and> length pts = 1 \<and> point_y (hd pts) = 0"
proof -
  have h: "(1::int) \<le> 2" "\<forall>p \<in> set [(10::real, 4::real), (20, 4), (30, 4)]. snd p = 4"
    "(2::int) + 1 \<le> int (length [(10::real, 4::real), (20, 4), (30, 4)])"
    by simp_all
  from rsi_flat_is_zero [OF h]
  obtain pts where p: "calculateRSI [(10, 4), (20, 4), (30, 4)] (map snd [(10::real, 4::real), (20, 4), (30, 4)]) 2 = Inr pts"
    "int (length pts) = int (length [(10::real, 4::real), (20, 4), (30, 4)]) - 2"
    "\<forall>p \<in> set pts. point_y p = 0"
    by blast
  from p(2) have l: "length pts = 1" by simp
  then have "hd pts \<in> set pts" by (cases pts) simp_all
  with p l show ?thesis by blast
qed




section \<open>Support and resistance\<close>

lemma Math_min_Min: "xs \<noteq> [] \<Longrightarrow> Math_min xs = Inr (Min (set xs))"
  by (cases xs) (simp_all add: Math_min_def flip: Min.set_eq_fold)

lemma Math_max_Max: "xs \<noteq> [] \<Longrightarrow> Math_max xs = Inr (Max (set xs))"
  by (cases xs) (simp_all add: Math_max_def flip: Max.set_eq_fold)

lemma set_drop_nth: "set (drop k xs) = (\<lambda>j. xs ! j) ` {k ..< length xs}"
proof -
  have "drop k xs = drop k (map (\<lambda>j. xs ! j) [0 ..< length xs])"
    by (simp add: map_nth)
  also have "\<dots> = map (\<lambda>j. xs ! j) [k ..< length xs]"
    by (simp add: drop_map)
  finally show ?thesis by simp
qed

lemma trailing_closing_prices:
  "set (drop (length prices - n) (map snd prices))
     = (\<lambda>j. snd (prices ! j)) ` {length prices - n ..< length prices}"
  by (auto simp add: set_drop_nth)

lemma useTechnicalAnalysis_nonempty:
  assumes "prices \<noteq> []"
  shows "useTechnicalAnalysis prices =
         Inr \<lparr>sma20 = map (sma_point prices (map snd prices) 20) [19 .. int (length prices) - 1],
              sma50 = map (sma_point prices (map snd prices) 50) [49 .. int (length prices) - 1],
              rsi = naiveRSI prices (map snd prices) 14,
              support = Some (Min (set (drop (length prices - 90) (map snd prices)))),
              resistance = Some (Max (set (drop (length prices - 90) (map snd prices))))\<rparr>"
proof -
  let ?data = "map snd prices"
  have s20: "calculateSMA prices ?data 20 = Inr (map (sma_point prices ?data 20) [19 .. int (length prices) - 1])"
    using calculateSMA_eq [of 20 ?data prices] by simp
  have s50: "calculateSMA prices ?data 50 = Inr (map (sma_point prices ?data 50) [49 .. int (length prices) - 1])"
    using calculateSMA_eq [of 50 ?data prices] by simp
  have r: "calculateRSI prices ?data 14 = Inr (naiveRSI prices ?data 14)"
    by (rule calculateRSI_naive) simp_all
  have recent: "slice_from ?data (- 90) = drop (length prices - 90) ?data"
    using slice_from_trailing [of 90 ?data] by simp
  have ne: "drop (length prices - 90) ?data \<noteq> []"
    using assms by (cases prices) simp_all
  show ?thesis
    using assms
    by (simp add: useTechnicalAnalysis_def Let_def s20 s50 r recent
        Math_min_Min [OF ne] Math_max_Max [OF ne])
qed

lemma useTechnicalAnalysis_empty:
  "useTechnicalAnalysis [] = Inr \<lparr>sma20 = [], sma50 = [], rsi = [], support = None, resistance = None\<rparr>"
  by (simp add: useTechnicalAnalysis_def)

text \<open>
  C5. For every non-empty price series, \<open>useTechnicalAnalysis\<close> returns without an
  error, and its support and resistance are the minimum and the maximum of the closing
  values of the trailing window: the samples with the indices from \<open>N - 90\<close> to
  \<open>N - 1\<close>, that is the last 90 of them, or all of them when the series has fewer (the
  difference \<open>N - 90\<close> of natural numbers is 0 then). For the closing values 5, 3, 8,
  1, 9 the support is 1 and the resistance 9. For the empty series both are absent
  (\<open>None\<close>), not a number.
\<close>

theorem support_resistance:
  "(prices \<noteq> [] \<longrightarrow>
      (\<exists>snap. useTechnicalAnalysis prices = Inr snap
         \<and> support snap = Some (Min ((\<lambda>j. snd (prices ! j)) ` {length prices - 90 ..< length prices}))
         \<and> resistance snap = Some (Max ((\<lambda>j. snd (prices ! j)) ` {length prices - 90 ..< length prices}))))
   \<and> (\<exists>snap. useTechnicalAnalysis [(1, 5), (2, 3), (3, 8), (4, 1), (5, 9)] = Inr snap
         \<and> support snap = Some 1 \<and> resistance snap = Some 9)
   \<and> (\<exists>snap. useTechnicalAnalysis [] = Inr snap \<and> support snap = None \<and> resistance snap = None)"
proof (intro conjI impI)
  assume "prices \<noteq> []"
  then show "\<exists>snap. useTechnicalAnalysis prices = Inr snap
         \<and> support snap = Some (Min ((\<lambda>j. snd (prices ! j)) ` {length prices - 90 ..< length prices}))
         \<and> resistance snap = Some (Max ((\<lambda>j. snd (prices ! j)) ` {length prices - 90 ..< length prices}))"
    by (simp add: useTechnicalAnalysis_nonempty trailing_closing_prices)
next
  have "useTechnicalAnalysis [(1, 5), (2, 3), (3, 8), (4, 1), (5, 9)]
          = Inr \<lparr>sma20 = [], sma50 = [], rsi = [], support = Some 1, resistance = Some 9\<rparr>"
    by (simp add: useTechnicalAnalysis_def calculateSMA_def sma_loop.simps calculateRSI_def
        rsi_loop.simps at_index_def slice_from_def slice_def Math_min_def Math_max_def)
  then show "\<exists>snap. useTechnicalAnalysis [(1, 5), (2, 3), (3, 8), (4, 1), (5, 9)] = Inr snap
         \<and> support snap = Some 1 \<and> resistance snap = Some 9"
    by simp
next
  show "\<exists>snap. useTechnicalAnalysis [] = Inr snap \<and> support snap = None \<and> resistance snap = None"
    by (simp add: useTechnicalAnalysis_empty)
qed

text \<open>
  The closing values 7, 4, 6: support 4 and resistance 7.
\<close>

theorem support_resistance_witness:
  "\<exists>snap. useTechnicalAnalysis [(1, 7), (2, 4), (3, 6)] = Inr snap
      \<and> support snap = Some 4 \<and> resistance snap = Some 7"
proof -
  have ne: "[(1::real, 7::real), (2, 4), (3, 6)] \<noteq> []" by simp
  have i: "{length [(1::real, 7::real), (2, 4), (3, 6)] - 90 ..< length [(1::real, 7::real), (2, 4), (3, 6)]} = {0, 1, 2}"
    by auto
  from support_resistance [of "[(1, 7), (2, 4), (3, 6)]", THEN conjunct1, rule_format, OF ne]
  show ?thesis by (simp only: i) simp
qed

section \<open>Empty and short inputs\<close>

text \<open>
  C9. On the empty series \<open>useTechnicalAnalysis\<close> returns three empty sequences and
  absent support and resistance, and \<open>useRiskReturnAnalysis\<close> returns the empty
  sequence; the loops of \<open>calculateRSI\<close> and, for a window \<open>W \<ge> 1\<close>, of
  \<open>calculateSMA\<close> return the empty sequence on empty arrays. None of them raises, and
  \<open>useTechnicalAnalysis\<close> raises on no price series at all: a series shorter than 20,
  50 or 15 samples gives an empty \<open>sma20\<close>, \<open>sma50\<close> or \<open>rsi\<close>.
  (\<open>useRiskReturnAnalysis\<close> has no error to return: its result is a list.)
\<close>

theorem empty_inputs:
  "useTechnicalAnalysis [] = Inr \<lparr>sma20 = [], sma50 = [], rsi = [], support = None, resistance = None\<rparr>
   \<and> useRiskReturnAnalysis [] days = []
   \<and> calculateRSI [] [] W = Inr []
   \<and> (1 \<le> W \<longrightarrow> calculateSMA [] [] W = Inr [])
   \<and> (\<exists>snap. useTechnicalAnalysis prices = Inr snap
          \<and> (length prices < 20 \<longrightarrow> sma20 snap = [])
          \<and> (length prices < 50 \<longrightarrow> sma50 snap = [])
          \<and> (length prices < 15 \<longrightarrow> rsi snap = []))"
proof (intro conjI impI)
  show "useTechnicalAnalysis [] = Inr \<lparr>sma20 = [], sma50 = [], rsi = [], support = None, resistance = None\<rparr>"
    by (rule useTechnicalAnalysis_empty)
  show "useRiskReturnAnalysis [] days = []"
    by (simp add: useRiskReturnAnalysis_def)
  show "calculateRSI [] [] W = Inr []"
    by (simp add: calculateRSI_def rsi_loop_stop)
  show "calculateSMA [] [] W = Inr []" if "1 \<le> W"
    using that by (simp add: calculateSMA_def sma_loop_stop)
  show "\<exists>snap. useTechnicalAnalysis prices = Inr snap
          \<and> (length prices < 20 \<longrightarrow> sma20 snap = [])
          \<and> (length prices < 50 \<longrightarrow> sma50 snap = [])
          \<and> (length prices < 15 \<longrightarrow> rsi snap = [])"
    by (cases "prices = []")
      (simp_all add: useTechnicalAnalysis_empty useTechnicalAnalysis_nonempty naiveRSI_def)
qed

text \<open>
  The windows 20 of the code, and a series of two samples.
\<close>

theorem empty_inputs_witness:
  "calculateSMA [] [] 20 = Inr []
   \<and> (\<exists>snap. useTechnicalAnalysis [(1, 5), (2, 3)] = Inr snap
          \<and> sma20 snap = [] \<and> sma50 snap = [] \<and> rsi snap = [])"
proof -
  have "(1::int) \<le> 20" by simp
  with empty_inputs [of 0 20 "[(1, 5), (2, 3)]"] show ?thesis by simp
qed

section \<open>Risk and return of the assets\<close>

text \<open>
  C4. \<open>useRiskReturnAnalysis\<close> returns one point for each asset, in the order of the
  input and with none left out. With \<open>dailyReturn = change24h / 100\<close>, where
  \<open>change24h\<close> is the field \<^verbatim>\<open>price_change_percentage_24h_in_currency\<close> that the code
  reads, and \<open>dailyReturn = 0\<close> when the asset does not have the field, the risk
  coordinate of the point is \<open>\<bar>dailyReturn\<bar> * sqrt 365\<close> and the return coordinate
  \<open>(1 + dailyReturn) ^ 365 - 1\<close>; the point has the name and the image of the asset.
  For \<open>change24h = 10\<close> the point is \<open>(0.10 * sqrt 365, 1.10 ^ 365 - 1)\<close>.
\<close>

theorem risk_return_points:
  "length (useRiskReturnAnalysis marketData days) = length marketData
   \<and> (\<forall>i < length marketData.
        point_x (useRiskReturnAnalysis marketData days ! i)
          = \<bar>case price_change_percentage_24h_in_currency (marketData ! i) of
               None \<Rightarrow> 0 | Some change24h \<Rightarrow> change24h / 100\<bar> * sqrt 365
      \<and> point_y (useRiskReturnAnalysis marketData days ! i)
          = (1 + (case price_change_percentage_24h_in_currency (marketData ! i) of
                    None \<Rightarrow> 0 | Some change24h \<Rightarrow> change24h / 100)) ^ 365 - 1
      \<and> point_name (useRiskReturnAnalysis marketData days ! i) = coin_name (marketData ! i)
      \<and> point_image (useRiskReturnAnalysis marketData days ! i) = coin_image (marketData ! i))
   \<and> (\<forall>coin. price_change_percentage_24h_in_currency coin = Some 10 \<longrightarrow>
        useRiskReturnAnalysis [coin] days
          = [\<lparr>point_x = 0.10 * sqrt 365, point_y = 1.10 ^ 365 - 1,
              point_name = coin_name coin, point_image = coin_image coin\<rparr>])"
proof -
  have d: "dailyReturn coin = (case price_change_percentage_24h_in_currency coin of
                                None \<Rightarrow> 0 | Some change24h \<Rightarrow> change24h / 100)" for coin
    by (simp add: dailyReturn_def split: option.split)
  have m: "useRiskReturnAnalysis marketData days =
           map (\<lambda>coin. \<lparr>point_x = \<bar>dailyReturn coin\<bar> * sqrt 365, point_y = (1 + dailyReturn coin) ^ 365 - 1,
                        point_name = coin_name coin, point_image = coin_image coin\<rparr>) marketData"
    for marketData
    by (simp add: useRiskReturnAnalysis_def Let_def)
  have ten: "(1 + 10 / 100 :: real) = 1.10" "\<bar>10 / 100 :: real\<bar> = 0.10" by simp_all
  show ?thesis
    by (simp add: m d ten)
qed


text \<open>
  Two assets, the first with the change 10, the second without the field.
\<close>

theorem risk_return_points_witness:
  "length (useRiskReturnAnalysis
      [\<lparr>coin_id = ''bitcoin'', coin_name = ''Bitcoin'', coin_symbol = ''btc'', coin_image = ''btc.png'',
        current_price = 50000, market_cap = 1000000, total_volume = 3000,
        price_change_percentage_24h = 10, price_change_percentage_24h_in_currency = Some 10\<rparr>,
       \<lparr>coin_id = ''ethereum'', coin_name = ''Ethereum'', coin_symbol = ''eth'', coin_image = ''eth.png'',
        current_price = 3000, market_cap = 400000, total_volume = 2000,
        price_change_percentage_24h = 5, price_change_percentage_24h_in_currency = None\<rparr>] 30) = 2
   \<and> point_x (useRiskReturnAnalysis
      [\<lparr>coin_id = ''bitcoin'', coin_name = ''Bitcoin'', coin_symbol = ''btc'', coin_image = ''btc.png'',
        current_price = 50000, market_cap = 1000000, total_volume = 3000,
        price_change_percentage_24h = 10, price_change_percentage_24h_in_currency = Some 10\<rparr>,
       \<lparr>coin_id = ''ethereum'', coin_name = ''Ethereum'', coin_symbol = ''eth'', coin_image = ''eth.png'',
        current_price = 3000, market_cap = 400000, total_volume = 2000,
        price_change_percentage_24h = 5, price_change_percentage_24h_in_currency = None\<rparr>] 30 ! 0)
       = 0.10 * sqrt 365
   \<and> point_y (useRiskReturnAnalysis
      [\<lparr>coin_id = ''bitcoin'', coin_name = ''Bitcoin'', coin_symbol = ''btc'', coin_image = ''btc.png'',
        current_price = 50000, market_cap = 1000000, total_volume = 3000,
        price_change_percentage_24h = 10, price_change_percentage_24h_in_currency = Some 10\<rparr>,
       \<lparr>coin_id = ''ethereum'', coin_name = ''Ethereum'', coin_symbol = ''eth'', coin_image = ''eth.png'',
        current_price = 3000, market_cap = 400000, total_volume = 2000,
        price_change_percentage_24h = 5, price_change_percentage_24h_in_currency = None\<rparr>] 30 ! 1)
       = 0
   \<and> useRiskReturnAnalysis
      [\<lparr>coin_id = ''bitcoin'', coin_name = ''Bitcoin'', coin_symbol = ''btc'', coin_image = ''btc.png'',
        current_price = 50000, market_cap = 1000000, total_volume = 3000,
        price_change_percentage_24h = 10, price_change_percentage_24h_in_currency = Some 10\<rparr>] 30
       = [\<lparr>point_x = 0.10 * sqrt 365, point_y = 1.10 ^ 365 - 1,
           point_name = ''Bitcoin'', point_image = ''btc.png''\<rparr>]"
proof -
  let ?btc = "\<lparr>coin_id = ''bitcoin'', coin_name = ''Bitcoin'', coin_symbol = ''btc'', coin_image = ''btc.png'',
        current_price = 50000, market_cap = 1000000, total_volume = 3000,
        price_change_percentage_24h = 10, price_change_percentage_24h_in_currency = Some 10\<rparr>"
  have c: "price_change_percentage_24h_in_currency ?btc = Some 10" by simp
  from risk_return_points [of "[]" 30, THEN conjunct2, THEN conjunct2, rule_format, OF c]
  have one: "useRiskReturnAnalysis [?btc] 30
       = [\<lparr>point_x = 0.10 * sqrt 365, point_y = 1.10 ^ 365 - 1,
           point_name = ''Bitcoin'', point_image = ''btc.png''\<rparr>]"
    by simp
  let ?md = "[\<lparr>coin_id = ''bitcoin'', coin_name = ''Bitcoin'', coin_symbol = ''btc'', coin_image = ''btc.png'',
        current_price = 50000, market_cap = 1000000, total_volume = 3000,
        price_change_percentage_24h = 10, price_change_percentage_24h_in_currency = Some 10\<rparr>,
       \<lparr>coin_id = ''ethereum'', coin_name = ''Ethereum'', coin_symbol = ''eth'', coin_image = ''eth.png'',
        current_price = 3000, market_cap = 400000, total_volume = 2000,
        price_change_percentage_24h = 5, price_change_percentage_24h_in_currency = None\<rparr>]"
  have k: "0 < length ?md" "1 < length ?md" by simp_all
  note r = risk_return_points [of ?md 30]
  from r [THEN conjunct1] have l: "length (useRiskReturnAnalysis ?md 30) = 2" by simp
  from r [THEN conjunct2, THEN conjunct1, rule_format, OF k(1)]
  have x: "point_x (useRiskReturnAnalysis ?md 30 ! 0) = 0.10 * sqrt 365" by simp
  from r [THEN conjunct2, THEN conjunct1, rule_format, OF k(2)]
  have y: "point_y (useRiskReturnAnalysis ?md 30 ! 1) = 0" by simp
  from l x y one show ?thesis by blast
qed

section \<open>Rounding to binary64\<close>

text \<open>
  What the rounding is: \<open>floor_log2\<close> is the binary exponent, \<open>round_even\<close> is within
  one half of its argument, and a rounded magnitude is within half a unit in the last
  place. Then three known values: the binary64 number nearest to 0.1, the sum
  \<^verbatim>\<open>0.1 + 0.2\<close> (which is \<^verbatim>\<open>0.30000000000000004\<close>), and a tie that goes to the even
  neighbour.
\<close>

lemma bitlen_numeral: "bitlen (numeral k) = bitlen (numeral k div 2) + 1"
  by (subst compute_bitlen) simp

lemma bitlen_one: "bitlen 1 = 1"
  by (subst compute_bitlen) simp

lemmas round_double_eval = round_double_def round_magnitude_def floor_log2_def round_even_def
  bitlen_numeral bitlen_one Let_def

lemmas double_eval = round_double_eval double_add_def double_sub_def double_neg_def double_div_def
  is_infinite_def is_zero_def is_negative_def signed_zero_def signed_infinity_def

lemma round_even_nearest: "\<bar>real_of_int (round_even y) - y\<bar> \<le> 1 / 2"
  unfolding round_even_def Let_def by (auto simp add: abs_le_iff)

lemma floor_log2_bounds:
  assumes "0 < m"
  shows "2 powi floor_log2 m \<le> m" and "m < 2 powi (floor_log2 m + 1)"
proof -
  show "2 powi floor_log2 m \<le> m"
  proof (cases "1 \<le> m")
    case True
    then have p: "0 < \<lfloor>m\<rfloor>" by simp
    have "real_of_int (2 ^ nat (bitlen \<lfloor>m\<rfloor> - 1)) \<le> real_of_int \<lfloor>m\<rfloor>"
      using bitlen_bounds [OF p] by (simp only: of_int_le_iff)
    also have "\<dots> \<le> m" by simp
    finally have "2 ^ nat (bitlen \<lfloor>m\<rfloor> - 1) \<le> m" by simp
    moreover have "0 \<le> bitlen \<lfloor>m\<rfloor> - 1" using p by (simp add: bitlen_alt_def)
    ultimately show ?thesis using True by (simp add: floor_log2_def power_int_def)
  next
    case False
    with assms have m: "0 < m" "m < 1" by simp_all
    then have one: "1 < 1 / m" by simp
    let ?c = "\<lceil>1 / m\<rceil> - 1"
    have c: "0 < ?c" using one by linarith
    have "1 / m \<le> real_of_int ?c + 1" by simp
    also have "real_of_int ?c + 1 \<le> 2 ^ nat (bitlen ?c)"
    proof -
      have "?c + 1 \<le> 2 ^ nat (bitlen ?c)" using bitlen_bounds [OF c] by linarith
      then have "real_of_int (?c + 1) \<le> real_of_int (2 ^ nat (bitlen ?c))" by (simp only: of_int_le_iff)
      then show ?thesis by simp
    qed
    finally have "1 / m \<le> 2 ^ nat (bitlen ?c)" .
    then have "1 / 2 ^ nat (bitlen ?c) \<le> m"
      using m(1) by (simp add: field_simps)
    moreover have "1 \<le> bitlen ?c" using c by (simp add: bitlen_alt_def)
    ultimately show ?thesis using False
      by (simp add: floor_log2_def power_int_def inverse_eq_divide power_one_over)
  qed
  show "m < 2 powi (floor_log2 m + 1)"
  proof (cases "1 \<le> m")
    case True
    then have p: "0 < \<lfloor>m\<rfloor>" by simp
    have "\<lfloor>m\<rfloor> + 1 \<le> 2 ^ nat (bitlen \<lfloor>m\<rfloor>)" using bitlen_bounds [OF p] by linarith
    then have "real_of_int (\<lfloor>m\<rfloor> + 1) \<le> real_of_int (2 ^ nat (bitlen \<lfloor>m\<rfloor>))" by (simp only: of_int_le_iff)
    then have "real_of_int \<lfloor>m\<rfloor> + 1 \<le> 2 ^ nat (bitlen \<lfloor>m\<rfloor>)" by simp
    moreover have "m < real_of_int \<lfloor>m\<rfloor> + 1" by linarith
    ultimately have "m < 2 ^ nat (bitlen \<lfloor>m\<rfloor>)" by linarith
    moreover have "0 \<le> bitlen \<lfloor>m\<rfloor>" by (rule bitlen_nonneg)
    ultimately show ?thesis using True by (simp add: floor_log2_def power_int_def)
  next
    case False
    with assms have m: "0 < m" "m < 1" by simp_all
    then have one: "1 < 1 / m" by simp
    let ?c = "\<lceil>1 / m\<rceil> - 1"
    have c: "0 < ?c" using one by linarith
    have b1: "1 \<le> bitlen ?c" using c by (simp add: bitlen_alt_def)
    have "real_of_int (2 ^ nat (bitlen ?c - 1)) \<le> real_of_int ?c"
      using bitlen_bounds [OF c] by (simp only: of_int_le_iff)
    also have "real_of_int ?c < 1 / m" by linarith
    finally have "2 ^ nat (bitlen ?c - 1) < 1 / m" by simp
    then have "m < 1 / 2 ^ nat (bitlen ?c - 1)"
      using m(1) by (simp add: field_simps)
    moreover have "- bitlen ?c + 1 \<le> 0" using b1 by simp
    moreover have "nat (- (- bitlen ?c + 1)) = nat (bitlen ?c - 1)" by simp
    ultimately show ?thesis using False b1
      by (simp add: floor_log2_def power_int_def inverse_eq_divide power_one_over)
  qed
qed

lemma round_magnitude_nearest:
  "\<bar>round_magnitude m - m\<bar> \<le> 2 powi (max (floor_log2 m) (- 1022) - 52) / 2"
proof -
  define q :: real where "q = 2 powi (max (floor_log2 m) (- 1022) - 52)"
  define n where "n = real_of_int (round_even (m / q))"
  have q: "0 < q" by (simp add: q_def)
  have "n * q - m = (n - m / q) * q" using q by (simp add: field_simps)
  then have "\<bar>n * q - m\<bar> = \<bar>n - m / q\<bar> * q"
    using q by (simp add: abs_mult)
  also have "\<dots> \<le> 1 / 2 * q"
    using round_even_nearest [of "m / q"] q unfolding n_def by (intro mult_right_mono) simp_all
  finally have "\<bar>n * q - m\<bar> \<le> q / 2" by simp
  then show ?thesis
    by (simp only: round_magnitude_def Let_def q_def n_def)
qed

lemma round_double_tenth:
  "round_double (1 / 10) = Finite (3602879701896397 / 36028797018963968)"
  by (simp add: round_double_eval)

lemma double_add_tenth_fifth:
  "double_add (round_double (1 / 10)) (round_double (2 / 10)) = Finite (1351079888211149 / 4503599627370496)"
  by (simp add: double_eval)

lemma round_double_tie: "round_double (2 ^ 53 + 1) = Finite (2 ^ 53)"
  by (simp add: round_double_eval)

lemma double_div_zero: "double_div (Finite 100) (Finite 0) = PosInf"
  by (simp add: double_eval)

lemmas loop_eval = number_at_def at_index_def greater_zero_def falsy_def is_zero_def Let_def

section \<open>A run of the index in binary64 arithmetic\<close>

text \<open>
  The run of \<open>calculateRSI_double\<close> on \<open>drifting_prices\<close> with the window 14 that
  \<open>useTechnicalAnalysis\<close> passes. First the prices as they are read, then every
  addition, subtraction and division of the run, then the eighteen iterations of the
  loop one by one.
\<close>

lemma read_drifting:
  "read_prices drifting_prices =
     [(Finite 0, Finite (7684266864200909 / 281474976710656)),
      (Finite 1, Finite (4137682157646643 / 281474976710656)),
      (Finite 2, Finite (5573204538870989 / 562949953421312)),
      (Finite 3, Finite (4419157134357299 / 281474976710656)),
      (Finite 4, Finite (5122844576133939 / 140737488355328)),
      (Finite 5, Finite (5122844576133939 / 140737488355328)),
      (Finite 6, Finite (5122844576133939 / 140737488355328)),
      (Finite 7, Finite (5122844576133939 / 140737488355328)),
      (Finite 8, Finite (5122844576133939 / 140737488355328)),
      (Finite 9, Finite (5122844576133939 / 140737488355328)),
      (Finite 10, Finite (5122844576133939 / 140737488355328)),
      (Finite 11, Finite (5122844576133939 / 140737488355328)),
      (Finite 12, Finite (5122844576133939 / 140737488355328)),
      (Finite 13, Finite (5122844576133939 / 140737488355328)),
      (Finite 14, Finite (5122844576133939 / 140737488355328)),
      (Finite 15, Finite (5122844576133939 / 140737488355328)),
      (Finite 16, Finite (5122844576133939 / 140737488355328)),
      (Finite 17, Finite (5122844576133939 / 140737488355328)),
      (Finite 18, Finite (5122844576133939 / 140737488355328))]"
  by (simp add: read_prices_def drifting_prices_def round_double_eval)

lemma round_double_14: "round_double 14 = Finite 14"
  by (simp add: round_double_eval)

lemma drift_op1: "double_sub (Finite (4137682157646643 / 281474976710656)) (Finite (7684266864200909 / 281474976710656)) = Finite (- (1773292353277133 / 140737488355328))"
  by (simp add: double_eval)

lemma drift_op2: "double_sub (Finite 0) (Finite (- (1773292353277133 / 140737488355328))) = Finite (1773292353277133 / 140737488355328)"
  by (simp add: double_eval)

lemma drift_op3: "double_sub (Finite (5573204538870989 / 562949953421312)) (Finite (4137682157646643 / 281474976710656)) = Finite (- (2702159776422297 / 562949953421312))"
  by (simp add: double_eval)

lemma drift_op4: "double_sub (Finite (1773292353277133 / 140737488355328)) (Finite (- (2702159776422297 / 562949953421312))) = Finite (2448832297382707 / 140737488355328)"
  by (simp add: double_eval)

lemma drift_op5: "double_sub (Finite (4419157134357299 / 281474976710656)) (Finite (5573204538870989 / 562949953421312)) = Finite (3265109729843609 / 562949953421312)"
  by (simp add: double_eval)

lemma drift_op6: "double_add (Finite 0) (Finite (3265109729843609 / 562949953421312)) = Finite (3265109729843609 / 562949953421312)"
  by (simp add: double_eval)

lemma drift_op7: "double_sub (Finite (5122844576133939 / 140737488355328)) (Finite (4419157134357299 / 281474976710656)) = Finite (5826532017910579 / 281474976710656)"
  by (simp add: double_eval)

lemma drift_op8: "double_add (Finite (3265109729843609 / 562949953421312)) (Finite (5826532017910579 / 281474976710656)) = Finite (53 / 2)"
  by (simp add: double_eval)

lemma drift_op9: "double_sub (Finite (5122844576133939 / 140737488355328)) (Finite (5122844576133939 / 140737488355328)) = Finite 0"
  by (simp add: double_eval)

lemma drift_op10: "double_sub (Finite (2448832297382707 / 140737488355328)) (Finite 0) = Finite (2448832297382707 / 140737488355328)"
  by (simp add: double_eval)

lemma drift_op11: "double_div (Finite (53 / 2)) (Finite 14) = Finite (4262335361618505 / 2251799813685248)"
  by (simp add: double_eval)

lemma drift_op12: "double_div (Finite (2448832297382707 / 140737488355328)) (Finite 14) = Finite (5597330965446187 / 4503599627370496)"
  by (simp add: double_eval)

lemma drift_op13: "double_div (Finite (4262335361618505 / 2251799813685248)) (Finite (5597330965446187 / 4503599627370496)) = Finite (1714732616743077 / 1125899906842624)"
  by (simp add: double_eval)

lemma drift_op14: "double_add (Finite 1) (Finite (1714732616743077 / 1125899906842624)) = Finite (2840632523585701 / 1125899906842624)"
  by (simp add: double_eval)

lemma drift_op15: "double_div (Finite 100) (Finite (2840632523585701 / 1125899906842624)) = Finite (5578205688798877 / 140737488355328)"
  by (simp add: double_eval)

lemma drift_op16: "double_sub (Finite 100) (Finite (5578205688798877 / 140737488355328)) = Finite (8495543146733923 / 140737488355328)"
  by (simp add: double_eval)

lemma drift_op17: "double_add (Finite (2448832297382707 / 140737488355328)) (Finite (- (1773292353277133 / 140737488355328))) = Finite (337769972052787 / 70368744177664)"
  by (simp add: double_eval)

lemma drift_op18: "double_sub (Finite (337769972052787 / 70368744177664)) (Finite 0) = Finite (337769972052787 / 70368744177664)"
  by (simp add: double_eval)

lemma drift_op19: "double_div (Finite (337769972052787 / 70368744177664)) (Finite 14) = Finite (3088182601625481 / 9007199254740992)"
  by (simp add: double_eval)

lemma drift_op20: "double_div (Finite (4262335361618505 / 2251799813685248)) (Finite (3088182601625481 / 9007199254740992)) = Finite (6215905735693657 / 1125899906842624)"
  by (simp add: double_eval)

lemma drift_op21: "double_add (Finite 1) (Finite (6215905735693657 / 1125899906842624)) = Finite (7341805642536281 / 1125899906842624)"
  by (simp add: double_eval)

lemma drift_op22: "double_div (Finite 100) (Finite (7341805642536281 / 1125899906842624)) = Finite (1079137290903473 / 70368744177664)"
  by (simp add: double_eval)

lemma drift_op23: "double_sub (Finite 100) (Finite (1079137290903473 / 70368744177664)) = Finite (5957737126862927 / 70368744177664)"
  by (simp add: double_eval)

lemma drift_op24: "double_add (Finite (337769972052787 / 70368744177664)) (Finite (- (2702159776422297 / 562949953421312))) = Finite (- (1 / 562949953421312))"
  by (simp add: double_eval)

lemma drift_op25: "double_sub (Finite (- (1 / 562949953421312))) (Finite 0) = Finite (- (1 / 562949953421312))"
  by (simp add: double_eval)

lemma drift_op26: "double_div (Finite (- (1 / 562949953421312))) (Finite 14) = Finite (- (2573485501354569 / 20282409603651670423947251286016))"
  by (simp add: double_eval)

lemma drift_op27: "double_div (Finite (4262335361618505 / 2251799813685248)) (Finite (- (2573485501354569 / 20282409603651670423947251286016))) = Finite (- 14918173765664768)"
  by (simp add: double_eval)

lemma drift_op28: "double_add (Finite 1) (Finite (- 14918173765664768)) = Finite (- 14918173765664768)"
  by (simp add: double_eval)

lemma drift_op29: "double_div (Finite 100) (Finite (- 14918173765664768)) = Finite (- (4248678893745751 / 633825300114114700748351602688))"
  by (simp add: double_eval)

lemma drift_op30: "double_sub (Finite 100) (Finite (- (4248678893745751 / 633825300114114700748351602688))) = Finite 100"
  by (simp add: double_eval)

lemma drift_op31: "double_sub (Finite (53 / 2)) (Finite (3265109729843609 / 562949953421312)) = Finite (1456633004477645 / 70368744177664)"
  by (simp add: double_eval)

lemma drift_op32: "double_div (Finite (1456633004477645 / 70368744177664)) (Finite 14) = Finite (6658893734754949 / 4503599627370496)"
  by (simp add: double_eval)

lemma drift_op33: "double_div (Finite (6658893734754949 / 4503599627370496)) (Finite (- (2573485501354569 / 20282409603651670423947251286016))) = Finite (- 11653064035821162)"
  by (simp add: double_eval)

lemma drift_op34: "double_add (Finite 1) (Finite (- 11653064035821162)) = Finite (- 11653064035821160)"
  by (simp add: double_eval)

lemma drift_op35: "double_div (Finite 100) (Finite (- 11653064035821160)) = Finite (- (5439129984746975 / 633825300114114700748351602688))"
  by (simp add: double_eval)

lemma drift_op36: "double_sub (Finite 100) (Finite (- (5439129984746975 / 633825300114114700748351602688))) = Finite (7036874417766401 / 70368744177664)"
  by (simp add: double_eval)

lemma drift_op37: "double_sub (Finite (1456633004477645 / 70368744177664)) (Finite (5826532017910579 / 281474976710656)) = Finite (1 / 281474976710656)"
  by (simp add: double_eval)

lemma drift_op38: "double_div (Finite (1 / 281474976710656)) (Finite 14) = Finite (2573485501354569 / 10141204801825835211973625643008)"
  by (simp add: double_eval)

lemma drift_op39: "double_div (Finite (2573485501354569 / 10141204801825835211973625643008)) (Finite (- (2573485501354569 / 20282409603651670423947251286016))) = Finite (- 2)"
  by (simp add: double_eval)

lemma drift_op40: "double_add (Finite 1) (Finite (- 2)) = Finite (- 1)"
  by (simp add: double_eval)

lemma drift_op41: "double_div (Finite 100) (Finite (- 1)) = Finite (- 100)"
  by (simp add: double_eval)

lemma drift_op42: "double_sub (Finite 100) (Finite (- 100)) = Finite 200"
  by (simp add: double_eval)

lemma drift_op43: "double_add (Finite (- (1 / 562949953421312))) (Finite 0) = Finite (- (1 / 562949953421312))"
  by (simp add: double_eval)

lemma drift_op44: "double_sub (Finite 0) (Finite 0) = Finite 0"
  by (simp add: double_eval)

lemma drift_op45: "double_div (Finite 0) (Finite 14) = Finite 0"
  by (simp add: double_eval)

lemma drift_op46: "double_div (Finite 0) (Finite 1) = Finite 0"
  by (simp add: double_eval)

lemma drift_op47: "double_add (Finite 1) (Finite 0) = Finite 1"
  by (simp add: double_eval)

lemma drift_op48: "double_div (Finite 100) (Finite 1) = Finite 100"
  by (simp add: double_eval)

lemma drift_op49: "double_sub (Finite 100) (Finite 100) = Finite 0"
  by (simp add: double_eval)

lemmas drift_ops = drift_op1 drift_op2 drift_op3 drift_op4 drift_op5 drift_op6 drift_op7 drift_op8 drift_op9 drift_op10 drift_op11 drift_op12 drift_op13 drift_op14 drift_op15 drift_op16 drift_op17 drift_op18 drift_op19 drift_op20 drift_op21 drift_op22 drift_op23 drift_op24 drift_op25 drift_op26 drift_op27 drift_op28 drift_op29 drift_op30 drift_op31 drift_op32 drift_op33 drift_op34 drift_op35 drift_op36 drift_op37 drift_op38 drift_op39 drift_op40 drift_op41 drift_op42 drift_op43 drift_op44 drift_op45 drift_op46 drift_op47 drift_op48 drift_op49

lemma closing_drifting:
  "map snd (read_prices drifting_prices) =
     [Finite (7684266864200909 / 281474976710656), Finite (4137682157646643 / 281474976710656), Finite (5573204538870989 / 562949953421312), Finite (4419157134357299 / 281474976710656), Finite (5122844576133939 / 140737488355328), Finite (5122844576133939 / 140737488355328), Finite (5122844576133939 / 140737488355328), Finite (5122844576133939 / 140737488355328), Finite (5122844576133939 / 140737488355328), Finite (5122844576133939 / 140737488355328), Finite (5122844576133939 / 140737488355328), Finite (5122844576133939 / 140737488355328), Finite (5122844576133939 / 140737488355328), Finite (5122844576133939 / 140737488355328), Finite (5122844576133939 / 140737488355328), Finite (5122844576133939 / 140737488355328), Finite (5122844576133939 / 140737488355328), Finite (5122844576133939 / 140737488355328), Finite (5122844576133939 / 140737488355328)]"
  by (simp add: read_drifting)

lemma drift_step1:
  "rsi_loop_double (read_prices drifting_prices) (map snd (read_prices drifting_prices)) 14 1
     (Finite 0) (Finite 0)
     [] =
   rsi_loop_double (read_prices drifting_prices) (map snd (read_prices drifting_prices)) 14 2
     (Finite 0) (Finite (1773292353277133 / 140737488355328))
     []"
  by (subst rsi_loop_double.simps) (simp add: closing_drifting read_drifting loop_eval round_double_14 drift_ops)

lemma drift_step2:
  "rsi_loop_double (read_prices drifting_prices) (map snd (read_prices drifting_prices)) 14 2
     (Finite 0) (Finite (1773292353277133 / 140737488355328))
     [] =
   rsi_loop_double (read_prices drifting_prices) (map snd (read_prices drifting_prices)) 14 3
     (Finite 0) (Finite (2448832297382707 / 140737488355328))
     []"
  by (subst rsi_loop_double.simps) (simp add: closing_drifting read_drifting loop_eval round_double_14 drift_ops)

lemma drift_step3:
  "rsi_loop_double (read_prices drifting_prices) (map snd (read_prices drifting_prices)) 14 3
     (Finite 0) (Finite (2448832297382707 / 140737488355328))
     [] =
   rsi_loop_double (read_prices drifting_prices) (map snd (read_prices drifting_prices)) 14 4
     (Finite (3265109729843609 / 562949953421312)) (Finite (2448832297382707 / 140737488355328))
     []"
  by (subst rsi_loop_double.simps) (simp add: closing_drifting read_drifting loop_eval round_double_14 drift_ops)

lemma drift_step4:
  "rsi_loop_double (read_prices drifting_prices) (map snd (read_prices drifting_prices)) 14 4
     (Finite (3265109729843609 / 562949953421312)) (Finite (2448832297382707 / 140737488355328))
     [] =
   rsi_loop_double (read_prices drifting_prices) (map snd (read_prices drifting_prices)) 14 5
     (Finite (53 / 2)) (Finite (2448832297382707 / 140737488355328))
     []"
  by (subst rsi_loop_double.simps) (simp add: closing_drifting read_drifting loop_eval round_double_14 drift_ops)

lemma drift_step5:
  "rsi_loop_double (read_prices drifting_prices) (map snd (read_prices drifting_prices)) 14 5
     (Finite (53 / 2)) (Finite (2448832297382707 / 140737488355328))
     [] =
   rsi_loop_double (read_prices drifting_prices) (map snd (read_prices drifting_prices)) 14 6
     (Finite (53 / 2)) (Finite (2448832297382707 / 140737488355328))
     []"
  by (subst rsi_loop_double.simps) (simp add: closing_drifting read_drifting loop_eval round_double_14 drift_ops)

lemma drift_step6:
  "rsi_loop_double (read_prices drifting_prices) (map snd (read_prices drifting_prices)) 14 6
     (Finite (53 / 2)) (Finite (2448832297382707 / 140737488355328))
     [] =
   rsi_loop_double (read_prices drifting_prices) (map snd (read_prices drifting_prices)) 14 7
     (Finite (53 / 2)) (Finite (2448832297382707 / 140737488355328))
     []"
  by (subst rsi_loop_double.simps) (simp add: closing_drifting read_drifting loop_eval round_double_14 drift_ops)

lemma drift_step7:
  "rsi_loop_double (read_prices drifting_prices) (map snd (read_prices drifting_prices)) 14 7
     (Finite (53 / 2)) (Finite (2448832297382707 / 140737488355328))
     [] =
   rsi_loop_double (read_prices drifting_prices) (map snd (read_prices drifting_prices)) 14 8
     (Finite (53 / 2)) (Finite (2448832297382707 / 140737488355328))
     []"
  by (subst rsi_loop_double.simps) (simp add: closing_drifting read_drifting loop_eval round_double_14 drift_ops)

lemma drift_step8:
  "rsi_loop_double (read_prices drifting_prices) (map snd (read_prices drifting_prices)) 14 8
     (Finite (53 / 2)) (Finite (2448832297382707 / 140737488355328))
     [] =
   rsi_loop_double (read_prices drifting_prices) (map snd (read_prices drifting_prices)) 14 9
     (Finite (53 / 2)) (Finite (2448832297382707 / 140737488355328))
     []"
  by (subst rsi_loop_double.simps) (simp add: closing_drifting read_drifting loop_eval round_double_14 drift_ops)

lemma drift_step9:
  "rsi_loop_double (read_prices drifting_prices) (map snd (read_prices drifting_prices)) 14 9
     (Finite (53 / 2)) (Finite (2448832297382707 / 140737488355328))
     [] =
   rsi_loop_double (read_prices drifting_prices) (map snd (read_prices drifting_prices)) 14 10
     (Finite (53 / 2)) (Finite (2448832297382707 / 140737488355328))
     []"
  by (subst rsi_loop_double.simps) (simp add: closing_drifting read_drifting loop_eval round_double_14 drift_ops)

lemma drift_step10:
  "rsi_loop_double (read_prices drifting_prices) (map snd (read_prices drifting_prices)) 14 10
     (Finite (53 / 2)) (Finite (2448832297382707 / 140737488355328))
     [] =
   rsi_loop_double (read_prices drifting_prices) (map snd (read_prices drifting_prices)) 14 11
     (Finite (53 / 2)) (Finite (2448832297382707 / 140737488355328))
     []"
  by (subst rsi_loop_double.simps) (simp add: closing_drifting read_drifting loop_eval round_double_14 drift_ops)

lemma drift_step11:
  "rsi_loop_double (read_prices drifting_prices) (map snd (read_prices drifting_prices)) 14 11
     (Finite (53 / 2)) (Finite (2448832297382707 / 140737488355328))
     [] =
   rsi_loop_double (read_prices drifting_prices) (map snd (read_prices drifting_prices)) 14 12
     (Finite (53 / 2)) (Finite (2448832297382707 / 140737488355328))
     []"
  by (subst rsi_loop_double.simps) (simp add: closing_drifting read_drifting loop_eval round_double_14 drift_ops)

lemma drift_step12:
  "rsi_loop_double (read_prices drifting_prices) (map snd (read_prices drifting_prices)) 14 12
     (Finite (53 / 2)) (Finite (2448832297382707 / 140737488355328))
     [] =
   rsi_loop_double (read_prices drifting_prices) (map snd (read_prices drifting_prices)) 14 13
     (Finite (53 / 2)) (Finite (2448832297382707 / 140737488355328))
     []"
  by (subst rsi_loop_double.simps) (simp add: closing_drifting read_drifting loop_eval round_double_14 drift_ops)

lemma drift_step13:
  "rsi_loop_double (read_prices drifting_prices) (map snd (read_prices drifting_prices)) 14 13
     (Finite (53 / 2)) (Finite (2448832297382707 / 140737488355328))
     [] =
   rsi_loop_double (read_prices drifting_prices) (map snd (read_prices drifting_prices)) 14 14
     (Finite (53 / 2)) (Finite (2448832297382707 / 140737488355328))
     []"
  by (subst rsi_loop_double.simps) (simp add: closing_drifting read_drifting loop_eval round_double_14 drift_ops)

lemma drift_step14:
  "rsi_loop_double (read_prices drifting_prices) (map snd (read_prices drifting_prices)) 14 14
     (Finite (53 / 2)) (Finite (2448832297382707 / 140737488355328))
     [] =
   rsi_loop_double (read_prices drifting_prices) (map snd (read_prices drifting_prices)) 14 15
     (Finite (53 / 2)) (Finite (337769972052787 / 70368744177664))
     [\<lparr>double_x = Finite 14, double_y = Finite (8495543146733923 / 140737488355328)\<rparr>]"
  by (subst rsi_loop_double.simps) (simp add: closing_drifting read_drifting loop_eval round_double_14 drift_ops)

lemma drift_step15:
  "rsi_loop_double (read_prices drifting_prices) (map snd (read_prices drifting_prices)) 14 15
     (Finite (53 / 2)) (Finite (337769972052787 / 70368744177664))
     [\<lparr>double_x = Finite 14, double_y = Finite (8495543146733923 / 140737488355328)\<rparr>] =
   rsi_loop_double (read_prices drifting_prices) (map snd (read_prices drifting_prices)) 14 16
     (Finite (53 / 2)) (Finite (- (1 / 562949953421312)))
     [\<lparr>double_x = Finite 14, double_y = Finite (8495543146733923 / 140737488355328)\<rparr>, \<lparr>double_x = Finite 15, double_y = Finite (5957737126862927 / 70368744177664)\<rparr>]"
  by (subst rsi_loop_double.simps) (simp add: closing_drifting read_drifting loop_eval round_double_14 drift_ops)

lemma drift_step16:
  "rsi_loop_double (read_prices drifting_prices) (map snd (read_prices drifting_prices)) 14 16
     (Finite (53 / 2)) (Finite (- (1 / 562949953421312)))
     [\<lparr>double_x = Finite 14, double_y = Finite (8495543146733923 / 140737488355328)\<rparr>, \<lparr>double_x = Finite 15, double_y = Finite (5957737126862927 / 70368744177664)\<rparr>] =
   rsi_loop_double (read_prices drifting_prices) (map snd (read_prices drifting_prices)) 14 17
     (Finite (1456633004477645 / 70368744177664)) (Finite (- (1 / 562949953421312)))
     [\<lparr>double_x = Finite 14, double_y = Finite (8495543146733923 / 140737488355328)\<rparr>, \<lparr>double_x = Finite 15, double_y = Finite (5957737126862927 / 70368744177664)\<rparr>, \<lparr>double_x = Finite 16, double_y = Finite 100\<rparr>]"
  by (subst rsi_loop_double.simps) (simp add: closing_drifting read_drifting loop_eval round_double_14 drift_ops)

lemma drift_step17:
  "rsi_loop_double (read_prices drifting_prices) (map snd (read_prices drifting_prices)) 14 17
     (Finite (1456633004477645 / 70368744177664)) (Finite (- (1 / 562949953421312)))
     [\<lparr>double_x = Finite 14, double_y = Finite (8495543146733923 / 140737488355328)\<rparr>, \<lparr>double_x = Finite 15, double_y = Finite (5957737126862927 / 70368744177664)\<rparr>, \<lparr>double_x = Finite 16, double_y = Finite 100\<rparr>] =
   rsi_loop_double (read_prices drifting_prices) (map snd (read_prices drifting_prices)) 14 18
     (Finite (1 / 281474976710656)) (Finite (- (1 / 562949953421312)))
     [\<lparr>double_x = Finite 14, double_y = Finite (8495543146733923 / 140737488355328)\<rparr>, \<lparr>double_x = Finite 15, double_y = Finite (5957737126862927 / 70368744177664)\<rparr>, \<lparr>double_x = Finite 16, double_y = Finite 100\<rparr>, \<lparr>double_x = Finite 17, double_y = Finite (7036874417766401 / 70368744177664)\<rparr>]"
  by (subst rsi_loop_double.simps) (simp add: closing_drifting read_drifting loop_eval round_double_14 drift_ops)

lemma drift_step18:
  "rsi_loop_double (read_prices drifting_prices) (map snd (read_prices drifting_prices)) 14 18
     (Finite (1 / 281474976710656)) (Finite (- (1 / 562949953421312)))
     [\<lparr>double_x = Finite 14, double_y = Finite (8495543146733923 / 140737488355328)\<rparr>, \<lparr>double_x = Finite 15, double_y = Finite (5957737126862927 / 70368744177664)\<rparr>, \<lparr>double_x = Finite 16, double_y = Finite 100\<rparr>, \<lparr>double_x = Finite 17, double_y = Finite (7036874417766401 / 70368744177664)\<rparr>] =
   rsi_loop_double (read_prices drifting_prices) (map snd (read_prices drifting_prices)) 14 19
     (Finite (1 / 281474976710656)) (Finite (- (1 / 562949953421312)))
     [\<lparr>double_x = Finite 14, double_y = Finite (8495543146733923 / 140737488355328)\<rparr>, \<lparr>double_x = Finite 15, double_y = Finite (5957737126862927 / 70368744177664)\<rparr>, \<lparr>double_x = Finite 16, double_y = Finite 100\<rparr>, \<lparr>double_x = Finite 17, double_y = Finite (7036874417766401 / 70368744177664)\<rparr>, \<lparr>double_x = Finite 18, double_y = Finite 200\<rparr>]"
  by (subst rsi_loop_double.simps) (simp add: closing_drifting read_drifting loop_eval round_double_14 drift_ops)

lemma drifting_run:
  "calculateRSI_double (read_prices drifting_prices) (map snd (read_prices drifting_prices)) 14 =
     Inr [\<lparr>double_x = Finite 14, double_y = Finite (8495543146733923 / 140737488355328)\<rparr>,
          \<lparr>double_x = Finite 15, double_y = Finite (5957737126862927 / 70368744177664)\<rparr>,
          \<lparr>double_x = Finite 16, double_y = Finite 100\<rparr>,
          \<lparr>double_x = Finite 17, double_y = Finite (7036874417766401 / 70368744177664)\<rparr>,
          \<lparr>double_x = Finite 18, double_y = Finite 200\<rparr>]"
proof -
  have stop: "rsi_loop_double (read_prices drifting_prices) (map snd (read_prices drifting_prices)) 14 19 g l out = Inr out" for g l out
    by (subst rsi_loop_double.simps) (simp add: closing_drifting)
  show ?thesis
    unfolding calculateRSI_double_def
    by (simp only: drift_step1 drift_step2 drift_step3 drift_step4 drift_step5 drift_step6 drift_step7 drift_step8 drift_step9 drift_step10 drift_step11 drift_step12 drift_step13 drift_step14 drift_step15 drift_step16 drift_step17 drift_step18 stop)
qed

lemma drifting_window:
  "window_sums_double (map snd (read_prices drifting_prices)) 14 18 = (Finite 0, Finite 0)"
  by (simp add: window_sums_double_def closing_drifting loop_eval drift_ops upto_rec1)

lemma drifting_naive:
  "naiveRSI_value_double (map snd (read_prices drifting_prices)) 14 18 = Finite 0"
  by (simp add: naiveRSI_value_double_def drifting_window loop_eval round_double_14 drift_ops)

lemma drifting_reach:
  "calculateRSI_double (read_prices drifting_prices) (map snd (read_prices drifting_prices)) 14 =
   rsi_loop_double (read_prices drifting_prices) (map snd (read_prices drifting_prices)) 14 18
     (Finite (1 / 281474976710656)) (Finite (- (1 / 562949953421312)))
     [\<lparr>double_x = Finite 14, double_y = Finite (8495543146733923 / 140737488355328)\<rparr>,
      \<lparr>double_x = Finite 15, double_y = Finite (5957737126862927 / 70368744177664)\<rparr>,
      \<lparr>double_x = Finite 16, double_y = Finite 100\<rparr>,
      \<lparr>double_x = Finite 17, double_y = Finite (7036874417766401 / 70368744177664)\<rparr>]"
  unfolding calculateRSI_double_def
  by (simp only: drift_step1 drift_step2 drift_step3 drift_step4 drift_step5 drift_step6 drift_step7 drift_step8 drift_step9 drift_step10 drift_step11 drift_step12 drift_step13 drift_step14 drift_step15 drift_step16 drift_step17)

section \<open>The accumulators drift\<close>

text \<open>
  C1 fails on the code. The claim: at every emission index the two accumulators equal
  the sums over the 14 most recent deltas, so the loop emits what a full recomputation
  emits. In exact arithmetic that holds (\<open>calculateRSI_naive\<close>). In the binary64
  arithmetic of the code every delta is added with one rounding and subtracted with
  another, and what is left stays in the accumulators. On \<open>drifting_prices\<close> the loop
  enters the iteration 18 with \<open>gains = 2 ^ - 48\<close> and \<open>losses = - (2 ^ - 49)\<close>. The 14
  deltas of that window (indices 5 to 18) are all zero, so both recomputed sums are 0
  and the recomputed value is 0; the loop emits 200.
\<close>

theorem rsi_drifts_from_recomputation:
  "calculateRSI_double (read_prices drifting_prices) (map snd (read_prices drifting_prices)) 14 =
     rsi_loop_double (read_prices drifting_prices) (map snd (read_prices drifting_prices)) 14 18
       (Finite (1 / 281474976710656)) (Finite (- (1 / 562949953421312)))
       [\<lparr>double_x = Finite 14, double_y = Finite (8495543146733923 / 140737488355328)\<rparr>,
           \<lparr>double_x = Finite 15, double_y = Finite (5957737126862927 / 70368744177664)\<rparr>,
           \<lparr>double_x = Finite 16, double_y = Finite 100\<rparr>,
           \<lparr>double_x = Finite 17, double_y = Finite (7036874417766401 / 70368744177664)\<rparr>]
   \<and> window_sums_double (map snd (read_prices drifting_prices)) 14 18 = (Finite 0, Finite 0)
   \<and> naiveRSI_value_double (map snd (read_prices drifting_prices)) 14 18 = Finite 0
   \<and> calculateRSI_double (read_prices drifting_prices) (map snd (read_prices drifting_prices)) 14 =
       Inr ([\<lparr>double_x = Finite 14, double_y = Finite (8495543146733923 / 140737488355328)\<rparr>,
           \<lparr>double_x = Finite 15, double_y = Finite (5957737126862927 / 70368744177664)\<rparr>,
           \<lparr>double_x = Finite 16, double_y = Finite 100\<rparr>,
           \<lparr>double_x = Finite 17, double_y = Finite (7036874417766401 / 70368744177664)\<rparr>]
            @ [\<lparr>double_x = Finite 18, double_y = Finite 200\<rparr>])"
  using drifting_reach drifting_window drifting_naive drifting_run by simp

text \<open>
  C6 fails on the code. The claim: every emitted value lies between 0 and 100 (the
  chart draws the index on an axis from 0 to 100). On \<open>drifting_prices\<close>, ordinary
  prices with one decimal, \<open>calculateRSI_double\<close> with the window 14 emits five values.
  At the index 16 the loss of the window is zero, but the accumulator holds
  \<open>- (2 ^ - 49)\<close>, the guard \<^verbatim>\<open>avgLoss || 1\<close> does not apply and the value is 100; at
  the index 17 it is \<open>100 + 2 ^ - 46\<close>, and at the index 18 it is 200. In exact
  arithmetic every value is in the interval (\<open>naive_point_bounds\<close>).
\<close>

theorem rsi_leaves_0_100:
  "calculateRSI_double (read_prices drifting_prices) (map snd (read_prices drifting_prices)) 14 =
     Inr [\<lparr>double_x = Finite 14, double_y = Finite (8495543146733923 / 140737488355328)\<rparr>,
           \<lparr>double_x = Finite 15, double_y = Finite (5957737126862927 / 70368744177664)\<rparr>,
           \<lparr>double_x = Finite 16, double_y = Finite 100\<rparr>,
           \<lparr>double_x = Finite 17, double_y = Finite (7036874417766401 / 70368744177664)\<rparr>,
           \<lparr>double_x = Finite 18, double_y = Finite 200\<rparr>]
   \<and> (100::real) < 7036874417766401 / 70368744177664
   \<and> (100::real) < 200"
  using drifting_run by simp

end
